theory Spec2Isabelle
  imports Main "HOL-Library.Word"
begin

unbundle bit_operations_syntax

section \<open>Vocabulary of the platform\<close>

text \<open>
  The camera server (\<^verbatim>\<open>main/camera_server.c\<close>) and the face-detection task
  (\<^verbatim>\<open>main/face_detect_task.cpp\<close>) talk to four collaborators that are not part of
  the repository: the V4L2-style capture device (\<^verbatim>\<open>ioctl\<close>, \<^verbatim>\<open>mmap\<close>,
  \<^verbatim>\<open>munmap\<close>), the FreeRTOS mutex, the hardware JPEG encoder and the HTTP server.
  Each call to a collaborator is recorded as an \<open>event\<close> of a trace, in program order,
  and each answer of a collaborator is an input of the model (the \<open>_env\<close> and
  \<open>_resp\<close> records below), so that every branch of the source on such an answer is
  a branch of the model.
\<close>

type_synonym esp_err_t = int

text \<open>Error codes of \<^verbatim>\<open>esp_err.h\<close> (ESP-IDF).\<close>

definition ESP_OK :: esp_err_t where "ESP_OK = 0"
definition ESP_FAIL :: esp_err_t where "ESP_FAIL = - 1"
definition ESP_ERR_NO_MEM :: esp_err_t where "ESP_ERR_NO_MEM = 257"
definition ESP_ERR_INVALID_ARG :: esp_err_t where "ESP_ERR_INVALID_ARG = 258"
definition ESP_ERR_INVALID_STATE :: esp_err_t where "ESP_ERR_INVALID_STATE = 259"
definition ESP_ERR_NOT_SUPPORTED :: esp_err_t where "ESP_ERR_NOT_SUPPORTED = 262"

text \<open>Pointers of the 32-bit target; \<^verbatim>\<open>MAP_FAILED\<close> is \<^verbatim>\<open>(void *) -1\<close>.\<close>

type_synonym ptr = "32 word"

definition NULL :: ptr where "NULL = 0"
definition MAP_FAILED :: ptr where "MAP_FAILED = - 1"

text \<open>Pixel formats of \<^verbatim>\<open>videodev2.h\<close>: four characters packed little-endian.\<close>

definition v4l2_fourcc :: "char \<Rightarrow> char \<Rightarrow> char \<Rightarrow> char \<Rightarrow> 32 word" where
  "v4l2_fourcc a b c d =
     of_char a OR push_bit 8 (of_char b) OR push_bit 16 (of_char c) OR push_bit 24 (of_char d)"

definition V4L2_PIX_FMT_RGB565 :: "32 word" where
  "V4L2_PIX_FMT_RGB565 = v4l2_fourcc CHR ''R'' CHR ''G'' CHR ''B'' CHR ''P''"
definition V4L2_PIX_FMT_RGB24 :: "32 word" where
  "V4L2_PIX_FMT_RGB24 = v4l2_fourcc CHR ''R'' CHR ''G'' CHR ''B'' CHR ''3''"
definition V4L2_PIX_FMT_YUV422P :: "32 word" where
  "V4L2_PIX_FMT_YUV422P = v4l2_fourcc CHR ''4'' CHR ''2'' CHR ''2'' CHR ''P''"
definition V4L2_PIX_FMT_GREY :: "32 word" where
  "V4L2_PIX_FMT_GREY = v4l2_fourcc CHR ''G'' CHR ''R'' CHR ''E'' CHR ''Y''"
definition V4L2_PIX_FMT_JPEG :: "32 word" where
  "V4L2_PIX_FMT_JPEG = v4l2_fourcc CHR ''J'' CHR ''P'' CHR ''E'' CHR ''G''"

definition V4L2_FIELD_NONE :: "32 word" where "V4L2_FIELD_NONE = 1"
definition V4L2_BUF_FLAG_DONE :: "32 word" where "V4L2_BUF_FLAG_DONE = 4"
definition EINTR :: int where "EINTR = 4"

datatype vidioc =
    VIDIOC_G_FMT | VIDIOC_S_FMT | VIDIOC_REQBUFS | VIDIOC_QUERYBUF
  | VIDIOC_QBUF | VIDIOC_DQBUF | VIDIOC_STREAMON | VIDIOC_STREAMOFF

datatype chunk = STREAM_BOUNDARY | STREAM_PART | JPEG_PAYLOAD

datatype event =
    XSemaphoreCreateMutex
  | XSemaphoreTake nat bool
  | XSemaphoreGive
  | Ioctl int vidioc
  | Mmap int "32 word" "32 word" ptr
  | Munmap ptr "32 word"
  | JpegNewEncoderEngine
  | JpegDelEncoderEngine ptr
  | JpegAllocEncoderMem "32 word"
  | JpegEncoderProcess
  | FreeMem ptr
  | HttpdStart
  | HttpdRegisterUriHandler string
  | HttpdRespSetType string
  | HttpdRespSetHdr string string
  | HttpdRespSendErr nat string
  | HttpdRespSendChunk chunk
  | HttpdRespSend
  | NewHumanFaceDetect
  | DeleteHumanFaceDetect ptr
  | DetectorRun
  | XTaskCreatePinnedToCore
  | VTaskDelete

text \<open>
  In \<open>XSemaphoreTake ms ok\<close> the first argument is the timeout in milliseconds and
  the second the answer (\<^verbatim>\<open>pdTRUE\<close> or not); \<open>Mmap fd len off p\<close> records the
  pointer \<open>p\<close> that \<^verbatim>\<open>mmap\<close> returned.
\<close>

section \<open>State of the camera server\<close>

record mapped_buffer_t =
  buf_addr :: ptr
  buf_length :: "32 word"

text \<open>
  A FreeRTOS mutex is a queue of length one: it is free when the token is in the queue.
  \<^verbatim>\<open>xSemaphoreTake\<close> on a free mutex succeeds at once; on a mutex held by another
  context it succeeds only if the holder gives it back before the timeout (an answer of
  the environment). \<^verbatim>\<open>xSemaphoreGive\<close> puts the token back with a zero block time:
  on a free mutex the queue is full, the call fails and the mutex is left as it was.
\<close>

datatype mutex = Free | Held

definition xSemaphoreTake :: "mutex \<Rightarrow> bool \<Rightarrow> bool \<times> mutex" where
  "xSemaphoreTake m given_back_in_time =
     (case m of
        Free \<Rightarrow> (True, Held)
      | Held \<Rightarrow> (if given_back_in_time then (True, Held) else (False, Held)))"

definition xSemaphoreGive :: "mutex \<Rightarrow> bool \<times> mutex" where
  "xSemaphoreGive m = (case m of Held \<Rightarrow> (True, Free) | Free \<Rightarrow> (False, Free))"

record camera_stream_state_t =
  width :: "32 word"
  height :: "32 word"
  pixformat :: "32 word"
  lock :: "mutex option"

datatype jpeg_enc_input_format_t =
    JPEG_ENCODE_IN_FORMAT_RGB888 | JPEG_ENCODE_IN_FORMAT_RGB565
  | JPEG_ENCODE_IN_FORMAT_GRAY | JPEG_ENCODE_IN_FORMAT_YUV422

datatype jpeg_down_sampling_type_t =
    JPEG_DOWN_SAMPLING_YUV444 | JPEG_DOWN_SAMPLING_YUV422
  | JPEG_DOWN_SAMPLING_YUV420 | JPEG_DOWN_SAMPLING_GRAY

record jpeg_encoder_state_t =
  handle :: ptr
  src_format :: jpeg_enc_input_format_t
  sub_sample :: jpeg_down_sampling_type_t
  src_stride :: "32 word"
  out_buf :: ptr
  out_buf_size :: "32 word"
  quality :: "8 word"
  initialized :: bool

text \<open>The file-scope variables of \<^verbatim>\<open>camera_server.c\<close>.\<close>

record globals =
  s_server :: ptr
  s_camera_fd :: int
  s_stream_state :: camera_stream_state_t
  s_jpeg_state :: jpeg_encoder_state_t

definition STREAM_BUFFER_COUNT :: nat where "STREAM_BUFFER_COUNT = 3"
definition CAMERA_LOCK_TIMEOUT_MS :: nat where "CAMERA_LOCK_TIMEOUT_MS = 10000"

definition s_globals_init :: globals where
  "s_globals_init =
     \<lparr>s_server = NULL, s_camera_fd = - 1,
      s_stream_state = \<lparr>width = 0, height = 0, pixformat = V4L2_PIX_FMT_JPEG, lock = None\<rparr>,
      s_jpeg_state = \<lparr>handle = NULL, src_format = JPEG_ENCODE_IN_FORMAT_RGB888,
        sub_sample = JPEG_DOWN_SAMPLING_YUV444, src_stride = 0, out_buf = NULL,
        out_buf_size = 0, quality = 0, initialized = False\<rparr>\<rparr>"

section \<open>The camera lock\<close>

definition camera_state_init :: "globals \<Rightarrow> bool \<Rightarrow> esp_err_t \<times> globals \<times> event list" where
  "camera_state_init g create_ok =
     (if lock (s_stream_state g) \<noteq> None then (ESP_OK, g, [])
      else if \<not> create_ok then (ESP_ERR_NO_MEM, g, [XSemaphoreCreateMutex])
      else (ESP_OK, g\<lparr>s_stream_state := (s_stream_state g)\<lparr>lock := Some Free\<rparr>\<rparr>,
            [XSemaphoreCreateMutex]))"

definition camera_lock_acquire :: "globals \<Rightarrow> bool \<Rightarrow> bool \<times> globals \<times> event list" where
  "camera_lock_acquire g given_back_in_time =
     (case lock (s_stream_state g) of
        None \<Rightarrow> (False, g, [])
      | Some m \<Rightarrow>
          (let (ok, m') = xSemaphoreTake m given_back_in_time
           in (ok, g\<lparr>s_stream_state := (s_stream_state g)\<lparr>lock := Some m'\<rparr>\<rparr>,
               [XSemaphoreTake CAMERA_LOCK_TIMEOUT_MS ok])))"

definition camera_lock_release :: "globals \<Rightarrow> globals \<times> event list" where
  "camera_lock_release g =
     (case lock (s_stream_state g) of
        None \<Rightarrow> (g, [])
      | Some m \<Rightarrow>
          (g\<lparr>s_stream_state := (s_stream_state g)\<lparr>lock := Some (snd (xSemaphoreGive m))\<rparr>\<rparr>,
           [XSemaphoreGive]))"

section \<open>The JPEG encoder adapter\<close>

text \<open>
  The answers of the encoder driver to \<^verbatim>\<open>jpeg_encoder_init\<close>: the result and the
  handle of \<^verbatim>\<open>jpeg_new_encoder_engine\<close> (the driver stores the handle only when it
  succeeds), and the pointer and the actual size that \<^verbatim>\<open>jpeg_alloc_encoder_mem\<close>
  returns.
\<close>

record encoder_env =
  new_engine_err :: esp_err_t
  new_engine_handle :: ptr
  alloc_mem_ret :: ptr
  alloc_mem_actual :: "32 word"

text \<open>
  The \<^verbatim>\<open>switch\<close> of \<^verbatim>\<open>jpeg_encoder_init\<close> on the negotiated pixel format:
  input format, chroma sub-sampling and bits per pixel, or nothing for the
  \<^verbatim>\<open>default\<close> branch.
\<close>

definition encoder_params ::
  "32 word \<Rightarrow> (jpeg_enc_input_format_t \<times> jpeg_down_sampling_type_t \<times> 32 word) option" where
  "encoder_params pf =
     (if pf = V4L2_PIX_FMT_RGB565 then
        Some (JPEG_ENCODE_IN_FORMAT_RGB565, JPEG_DOWN_SAMPLING_YUV422, 16)
      else if pf = V4L2_PIX_FMT_RGB24 then
        Some (JPEG_ENCODE_IN_FORMAT_RGB888, JPEG_DOWN_SAMPLING_YUV444, 24)
      else if pf = V4L2_PIX_FMT_YUV422P then
        Some (JPEG_ENCODE_IN_FORMAT_YUV422, JPEG_DOWN_SAMPLING_YUV422, 16)
      else if pf = V4L2_PIX_FMT_GREY then
        Some (JPEG_ENCODE_IN_FORMAT_GRAY, JPEG_DOWN_SAMPLING_GRAY, 8)
      else None)"

definition jpeg_encoder_init :: "globals \<Rightarrow> encoder_env \<Rightarrow> esp_err_t \<times> globals \<times> event list" where
  "jpeg_encoder_init g env =
     (let js = s_jpeg_state g; ss = s_stream_state g in
      if initialized js then (ESP_OK, g, [])
      else
        (case encoder_params (pixformat ss) of
           None \<Rightarrow> (ESP_ERR_NOT_SUPPORTED, g, [])
         | Some (fmt, sub, src_bpp) \<Rightarrow>
             (if new_engine_err env \<noteq> ESP_OK then
                (new_engine_err env, g, [JpegNewEncoderEngine])
              else
                (let h = new_engine_handle env;
                     stride = (width ss * height ss * src_bpp) div 8;
                     out_size = stride
                 in
                 if alloc_mem_ret env = NULL then
                   (ESP_ERR_NO_MEM, g\<lparr>s_jpeg_state := js\<lparr>handle := NULL\<rparr>\<rparr>,
                    [JpegNewEncoderEngine, JpegAllocEncoderMem out_size, JpegDelEncoderEngine h])
                 else
                   (ESP_OK,
                    g\<lparr>s_jpeg_state := js\<lparr>handle := h, src_format := fmt, sub_sample := sub,
                       src_stride := stride, out_buf := alloc_mem_ret env,
                       out_buf_size :=
                         (if alloc_mem_actual env \<noteq> 0 then alloc_mem_actual env else out_size),
                       quality := 75, initialized := True\<rparr>\<rparr>,
                    [JpegNewEncoderEngine, JpegAllocEncoderMem out_size])))))"

definition jpeg_encoder_deinit :: "globals \<Rightarrow> globals \<times> event list" where
  "jpeg_encoder_deinit g =
     (let js = s_jpeg_state g;
          (js1, tr1) = (if out_buf js \<noteq> NULL then (js\<lparr>out_buf := NULL\<rparr>, [FreeMem (out_buf js)])
                        else (js, []));
          (js2, tr2) = (if handle js1 \<noteq> NULL
                        then (js1\<lparr>handle := NULL\<rparr>, [JpegDelEncoderEngine (handle js1)])
                        else (js1, []))
      in (g\<lparr>s_jpeg_state := js2\<lparr>initialized := False\<rparr>\<rparr>, tr1 @ tr2))"

text \<open>
  \<^verbatim>\<open>jpeg_encode_frame\<close>: the answer of \<^verbatim>\<open>jpeg_encoder_process\<close> is the pair of
  its result and the size it wrote. The function returns its result and the size of the
  payload (0 when it fails, as the caller initialised it).
\<close>

definition jpeg_encode_frame ::
  "globals \<Rightarrow> esp_err_t \<Rightarrow> 32 word \<Rightarrow> esp_err_t \<times> 32 word \<times> event list" where
  "jpeg_encode_frame g process_err process_size =
     (if \<not> initialized (s_jpeg_state g) then (ESP_ERR_INVALID_STATE, 0, [])
      else if process_err \<noteq> ESP_OK then (process_err, 0, [JpegEncoderProcess])
      else (ESP_OK, process_size, [JpegEncoderProcess]))"

section \<open>Format negotiation\<close>

text \<open>
  The part of \<^verbatim>\<open>struct v4l2_format\<close> that the code reads and writes. The answers of
  the device: the result of \<^verbatim>\<open>VIDIOC_G_FMT\<close> and the format it reports, and for
  \<^verbatim>\<open>VIDIOC_S_FMT\<close> a function from the format requested to the result and the
  format that the driver writes back.
\<close>

record v4l2_format =
  fmt_width :: "32 word"
  fmt_height :: "32 word"
  fmt_pixelformat :: "32 word"
  fmt_field :: "32 word"

record format_env =
  g_fmt_ret :: int
  g_fmt :: v4l2_format
  s_fmt :: "v4l2_format \<Rightarrow> int \<times> v4l2_format"

text \<open>
  \<^verbatim>\<open>configure_camera_device\<close> of \<^verbatim>\<open>camera_server.c\<close>. The build constants
  \<^verbatim>\<open>CONFIG_FACE_DET_ISP_WIDTH\<close> and \<^verbatim>\<open>CONFIG_FACE_DET_ISP_HEIGHT\<close> are the
  parameters \<open>desired_width\<close> and \<open>desired_height\<close>.
\<close>

definition configure_camera_device ::
  "32 word \<Rightarrow> 32 word \<Rightarrow> globals \<Rightarrow> int \<Rightarrow> format_env \<Rightarrow> esp_err_t \<times> globals \<times> event list" where
  "configure_camera_device desired_width desired_height g camera_fd env =
     (if g_fmt_ret env < 0 then (ESP_FAIL, g, [Ioctl camera_fd VIDIOC_G_FMT])
      else
        (let want = (desired_width > 0 \<and> desired_height > 0);
             fmt = (if want
                    then (g_fmt env)\<lparr>fmt_width := desired_width, fmt_height := desired_height\<rparr>
                    else g_fmt env);
             (fmt', tr) =
               (if fmt_pixelformat fmt \<noteq> V4L2_PIX_FMT_RGB565 then
                  (let rgb0 = fmt\<lparr>fmt_pixelformat := V4L2_PIX_FMT_RGB565,
                                  fmt_field := V4L2_FIELD_NONE\<rparr>;
                       rgb_req = (if want
                                  then rgb0\<lparr>fmt_width := desired_width, fmt_height := desired_height\<rparr>
                                  else rgb0);
                       (r1, rgb_fmt) = s_fmt env rgb_req
                   in
                   if r1 = 0 then (rgb_fmt, [Ioctl camera_fd VIDIOC_S_FMT])
                   else
                     (let yuv0 = fmt\<lparr>fmt_pixelformat := V4L2_PIX_FMT_YUV422P,
                                     fmt_field := V4L2_FIELD_NONE\<rparr>;
                          yuv_req = (if want
                                     then yuv0\<lparr>fmt_width := desired_width,
                                                fmt_height := desired_height\<rparr>
                                     else yuv0);
                          (r2, yuv_fmt) = s_fmt env yuv_req
                      in
                      if r2 = 0
                      then (yuv_fmt, [Ioctl camera_fd VIDIOC_S_FMT, Ioctl camera_fd VIDIOC_S_FMT])
                      else (fmt, [Ioctl camera_fd VIDIOC_S_FMT, Ioctl camera_fd VIDIOC_S_FMT])))
                else (fmt, []))
         in (ESP_OK,
             g\<lparr>s_stream_state := (s_stream_state g)\<lparr>width := fmt_width fmt',
                height := fmt_height fmt', pixformat := fmt_pixelformat fmt'\<rparr>\<rparr>,
             Ioctl camera_fd VIDIOC_G_FMT # tr)))"

section \<open>Capture sessions of the HTTP handlers\<close>

text \<open>
  The answers of the device for buffer \<open>i\<close> during setup (\<^verbatim>\<open>VIDIOC_QUERYBUF\<close>,
  \<^verbatim>\<open>mmap\<close>, \<^verbatim>\<open>VIDIOC_QBUF\<close>), for the whole setup (whether the holder of the
  mutex gives it back within the timeout, \<^verbatim>\<open>VIDIOC_REQBUFS\<close> and the count it
  writes back, \<^verbatim>\<open>calloc\<close>, \<^verbatim>\<open>VIDIOC_STREAMON\<close>), and for one iteration of
  the streaming loop.
\<close>

record buf_resp =
  querybuf_ret :: int
  querybuf_length :: "32 word"
  querybuf_offset :: "32 word"
  mmap_ret :: ptr
  qbuf_ret :: int

record session_env =
  lock_given_back :: bool
  reqbufs_ret :: int
  reqbufs_count :: nat
  calloc_ok :: bool
  buf_resps :: "nat \<Rightarrow> buf_resp"
  streamon_ret :: int

record frame_resp =
  dqbuf_ret :: int
  dqbuf_errno :: int
  dqbuf_flags :: "32 word"
  dqbuf_index :: nat
  dqbuf_bytesused :: "32 word"
  encode_err :: esp_err_t
  encode_size :: "32 word"
  send_boundary :: esp_err_t
  snprintf_ret :: int
  send_part :: esp_err_t
  send_jpeg :: esp_err_t
  requeue_ret :: int

definition STREAM_CONTENT_TYPE :: string where
  "STREAM_CONTENT_TYPE = ''multipart/x-mixed-replace;boundary=123456789000000000000987654321''"

text \<open>
  The \<^verbatim>\<open>for\<close> loop of \<^verbatim>\<open>stream_handler\<close> over the buffer indices: query, map,
  queue. The result is whether the loop ran to its end (\<open>False\<close> for a
  \<^verbatim>\<open>goto cleanup\<close>), the descriptor array and the trace.
\<close>

function map_buffers ::
  "int \<Rightarrow> (nat \<Rightarrow> buf_resp) \<Rightarrow> nat \<Rightarrow> nat \<Rightarrow> mapped_buffer_t list
    \<Rightarrow> bool \<times> mapped_buffer_t list \<times> event list" where
  "map_buffers fd resp i count buffers =
     (if i < count then
        (let r = resp i in
         if querybuf_ret r < 0 then (False, buffers, [Ioctl fd VIDIOC_QUERYBUF])
         else
           (let buffers1 = buffers[i := \<lparr>buf_addr = mmap_ret r, buf_length = querybuf_length r\<rparr>];
                tr1 = [Ioctl fd VIDIOC_QUERYBUF,
                       Mmap fd (querybuf_length r) (querybuf_offset r) (mmap_ret r)]
            in
            if mmap_ret r = MAP_FAILED then
              (False, buffers1[i := \<lparr>buf_addr = NULL, buf_length = querybuf_length r\<rparr>], tr1)
            else if qbuf_ret r < 0 then (False, buffers1, tr1 @ [Ioctl fd VIDIOC_QBUF])
            else
              (let (ok, buffers2, tr2) = map_buffers fd resp (i + 1) count buffers1
               in (ok, buffers2, tr1 @ Ioctl fd VIDIOC_QBUF # tr2))))
      else (True, buffers, []))"
  by pat_completeness auto
termination
  by (relation "measure (\<lambda>(fd, resp, i, count, buffers). count - i)") auto

text \<open>
  One iteration of the \<^verbatim>\<open>while (1)\<close> loop of \<^verbatim>\<open>stream_handler\<close>: the trace, and
  \<open>Some ret\<close> when the iteration leaves the loop by \<^verbatim>\<open>break\<close> with the value it
  assigned to \<^verbatim>\<open>ret\<close>, \<open>None\<close> when the loop goes on.
\<close>

definition stream_iteration :: "globals \<Rightarrow> frame_resp \<Rightarrow> event list \<times> esp_err_t option" where
  "stream_iteration g f =
     (let fd = s_camera_fd g in
      if dqbuf_ret f < 0 then ([Ioctl fd VIDIOC_DQBUF], Some ESP_FAIL)
      else if dqbuf_flags f AND V4L2_BUF_FLAG_DONE = 0 then
        ([Ioctl fd VIDIOC_DQBUF, Ioctl fd VIDIOC_QBUF], None)
      else
        (let (err, jpeg_size, tr_enc) = jpeg_encode_frame g (encode_err f) (encode_size f);
             tr1 = Ioctl fd VIDIOC_DQBUF # tr_enc
         in
         if err \<noteq> ESP_OK then (tr1 @ [Ioctl fd VIDIOC_QBUF], Some ESP_FAIL)
         else if send_boundary f \<noteq> ESP_OK then
           (tr1 @ [HttpdRespSendChunk STREAM_BOUNDARY, Ioctl fd VIDIOC_QBUF], Some ESP_FAIL)
         else if snprintf_ret f \<le> 0 then
           (tr1 @ [HttpdRespSendChunk STREAM_BOUNDARY, Ioctl fd VIDIOC_QBUF], Some ESP_FAIL)
         else if send_part f \<noteq> ESP_OK then
           (tr1 @ [HttpdRespSendChunk STREAM_BOUNDARY, HttpdRespSendChunk STREAM_PART,
                   Ioctl fd VIDIOC_QBUF], Some ESP_FAIL)
         else if send_jpeg f \<noteq> ESP_OK then
           (tr1 @ [HttpdRespSendChunk STREAM_BOUNDARY, HttpdRespSendChunk STREAM_PART,
                   HttpdRespSendChunk JPEG_PAYLOAD, Ioctl fd VIDIOC_QBUF], Some ESP_FAIL)
         else
           (tr1 @ [HttpdRespSendChunk STREAM_BOUNDARY, HttpdRespSendChunk STREAM_PART,
                   HttpdRespSendChunk JPEG_PAYLOAD, Ioctl fd VIDIOC_QBUF],
            if requeue_ret f < 0 then Some ESP_FAIL else None)))"

text \<open>
  The loop itself, run against the answers for its first iterations. It has no exit but
  \<^verbatim>\<open>break\<close>: when the answers are used up and no iteration has left the loop, the
  handler is still streaming and the result is \<open>None\<close>.
\<close>

fun stream_loop :: "globals \<Rightarrow> frame_resp list \<Rightarrow> event list \<times> esp_err_t option" where
  "stream_loop g [] = ([], None)"
| "stream_loop g (f # fs) =
     (case stream_iteration g f of
        (tr, Some ret) \<Rightarrow> (tr, Some ret)
      | (tr, None) \<Rightarrow> (let (tr', r) = stream_loop g fs in (tr @ tr', r)))"

text \<open>
  \<^verbatim>\<open>stream_handler\<close> from the acquisition of the lock to the label
  \<^verbatim>\<open>cleanup\<close>: the trace, and the local variables that the cleanup reads
  (\<^verbatim>\<open>ret\<close>, \<^verbatim>\<open>buffers\<close> with \<open>None\<close> for the null pointer,
  \<^verbatim>\<open>req_buf.count\<close>, \<^verbatim>\<open>stream_started\<close>), or \<open>None\<close> while the loop runs.
\<close>

definition stream_session ::
  "globals \<Rightarrow> session_env \<Rightarrow> frame_resp list
    \<Rightarrow> event list \<times> (esp_err_t \<times> mapped_buffer_t list option \<times> nat \<times> bool) option" where
  "stream_session g env frames =
     (let fd = s_camera_fd g;
          tr0 = [HttpdRespSetType STREAM_CONTENT_TYPE,
                 HttpdRespSetHdr ''Access-Control-Allow-Origin'' ''*'',
                 Ioctl fd VIDIOC_REQBUFS];
          count = reqbufs_count env
      in
      if reqbufs_ret env < 0 \<or> count = 0 then
        (tr0 @ [HttpdRespSendErr 500 ''Unable to alloc buffers''],
         Some (ESP_FAIL, None, count, False))
      else if \<not> calloc_ok env then
        (tr0 @ [HttpdRespSendErr 500 ''Out of memory''],
         Some (ESP_ERR_NO_MEM, None, count, False))
      else
        (let (ok, buffers, tr1) =
               map_buffers fd (buf_resps env) 0 count
                 (replicate count \<lparr>buf_addr = NULL, buf_length = 0\<rparr>)
         in
         if \<not> ok then (tr0 @ tr1, Some (ESP_FAIL, Some buffers, count, False))
         else if streamon_ret env < 0 then
           (tr0 @ tr1 @ [Ioctl fd VIDIOC_STREAMON], Some (ESP_FAIL, Some buffers, count, False))
         else
           (case stream_loop g frames of
              (tr2, None) \<Rightarrow> (tr0 @ tr1 @ Ioctl fd VIDIOC_STREAMON # tr2, None)
            | (tr2, Some ret) \<Rightarrow>
                (tr0 @ tr1 @ Ioctl fd VIDIOC_STREAMON # tr2,
                 Some (ret, Some buffers, count, True)))))"

text \<open>The code after the label \<^verbatim>\<open>cleanup\<close>, up to the release of the lock.\<close>

definition unmap_buffers :: "nat \<Rightarrow> mapped_buffer_t list \<Rightarrow> event list" where
  "unmap_buffers count buffers =
     concat (map (\<lambda>i. if buf_addr (buffers ! i) \<noteq> NULL
                       then [Munmap (buf_addr (buffers ! i)) (buf_length (buffers ! i))]
                       else [])
                 [0..<count])"

definition stream_cleanup :: "int \<Rightarrow> mapped_buffer_t list option \<Rightarrow> nat \<Rightarrow> bool \<Rightarrow> event list" where
  "stream_cleanup fd buffers count stream_started =
     (if stream_started then [Ioctl fd VIDIOC_STREAMOFF] else []) @
     (case buffers of None \<Rightarrow> [] | Some bs \<Rightarrow> unmap_buffers count bs)"

definition stream_handler ::
  "globals \<Rightarrow> session_env \<Rightarrow> frame_resp list \<Rightarrow> globals \<times> event list \<times> esp_err_t option" where
  "stream_handler g env frames =
     (let (granted, g1, tr0) = camera_lock_acquire g (lock_given_back env) in
      if \<not> granted then (g1, tr0 @ [HttpdRespSendErr 500 ''Camera busy''], Some ESP_FAIL)
      else
        (case stream_session g1 env frames of
           (tr1, None) \<Rightarrow> (g1, tr0 @ tr1, None)
         | (tr1, Some (ret, buffers, count, stream_started)) \<Rightarrow>
             (let (g2, tr2) = camera_lock_release g1
              in (g2,
                  tr0 @ tr1 @ stream_cleanup (s_camera_fd g1) buffers count stream_started @ tr2,
                  Some ret))))"

text \<open>
  \<^verbatim>\<open>capture_handler\<close> from the acquisition of the lock to the label
  \<^verbatim>\<open>cleanup\<close>: the trace and the locals \<^verbatim>\<open>ret\<close>, \<^verbatim>\<open>buffer\<close> and
  \<^verbatim>\<open>stream_started\<close>. It uses the answers for buffer 0 and for one frame;
  \<open>send_jpeg\<close> is here the result of \<^verbatim>\<open>httpd_resp_send\<close>.
\<close>

definition capture_session ::
  "globals \<Rightarrow> session_env \<Rightarrow> frame_resp \<Rightarrow> event list \<times> esp_err_t \<times> mapped_buffer_t \<times> bool" where
  "capture_session g env f =
     (let fd = s_camera_fd g;
          r = buf_resps env 0;
          buffer0 = \<lparr>buf_addr = NULL, buf_length = 0\<rparr>;
          tr_map = [Ioctl fd VIDIOC_REQBUFS, Ioctl fd VIDIOC_QUERYBUF,
                    Mmap fd (querybuf_length r) (querybuf_offset r) (mmap_ret r)];
          buffer = \<lparr>buf_addr = mmap_ret r, buf_length = querybuf_length r\<rparr>
      in
      if reqbufs_ret env < 0 \<or> reqbufs_count env = 0 then
        ([Ioctl fd VIDIOC_REQBUFS, HttpdRespSendErr 500 ''Unable to alloc buffer''],
         ESP_FAIL, buffer0, False)
      else if querybuf_ret r < 0 then
        ([Ioctl fd VIDIOC_REQBUFS, Ioctl fd VIDIOC_QUERYBUF], ESP_FAIL, buffer0, False)
      else if mmap_ret r = MAP_FAILED then
        (tr_map, ESP_FAIL, buffer\<lparr>buf_addr := NULL\<rparr>, False)
      else if qbuf_ret r < 0 then
        (tr_map @ [Ioctl fd VIDIOC_QBUF], ESP_FAIL, buffer, False)
      else if streamon_ret env < 0 then
        (tr_map @ [Ioctl fd VIDIOC_QBUF, Ioctl fd VIDIOC_STREAMON], ESP_FAIL, buffer, False)
      else if dqbuf_ret f < 0 then
        (tr_map @ [Ioctl fd VIDIOC_QBUF, Ioctl fd VIDIOC_STREAMON, Ioctl fd VIDIOC_DQBUF],
         ESP_FAIL, buffer, True)
      else
        (let (err, jpeg_size, tr_enc) = jpeg_encode_frame g (encode_err f) (encode_size f);
             tr1 = tr_map @ [Ioctl fd VIDIOC_QBUF, Ioctl fd VIDIOC_STREAMON,
                             Ioctl fd VIDIOC_DQBUF] @ tr_enc
         in
         if err = ESP_OK then
           (tr1 @ [HttpdRespSetType ''image/jpeg'',
                   HttpdRespSetHdr ''Content-Disposition'' ''inline; filename=capture.jpg'',
                   HttpdRespSend],
            send_jpeg f, buffer, True)
         else (tr1, ESP_FAIL, buffer, True)))"

definition capture_cleanup :: "int \<Rightarrow> mapped_buffer_t \<Rightarrow> bool \<Rightarrow> event list" where
  "capture_cleanup fd buffer stream_started =
     (if stream_started then [Ioctl fd VIDIOC_STREAMOFF] else []) @
     (if buf_addr buffer \<noteq> NULL then [Munmap (buf_addr buffer) (buf_length buffer)] else [])"

definition capture_handler ::
  "globals \<Rightarrow> session_env \<Rightarrow> frame_resp \<Rightarrow> globals \<times> event list \<times> esp_err_t" where
  "capture_handler g env f =
     (let (granted, g1, tr0) = camera_lock_acquire g (lock_given_back env) in
      if \<not> granted then (g1, tr0 @ [HttpdRespSendErr 500 ''Camera busy''], ESP_FAIL)
      else
        (let (tr1, ret, buffer, stream_started) = capture_session g1 env f;
             (g2, tr2) = camera_lock_release g1
         in (g2, tr0 @ tr1 @ capture_cleanup (s_camera_fd g1) buffer stream_started @ tr2, ret)))"

section \<open>Starting the server\<close>

record server_env =
  mutex_create_ok :: bool
  format_resp :: format_env
  encoder_resp :: encoder_env
  httpd_start_err :: esp_err_t
  httpd_handle :: ptr

definition camera_server_start ::
  "32 word \<Rightarrow> 32 word \<Rightarrow> globals \<Rightarrow> int \<Rightarrow> server_env \<Rightarrow> esp_err_t \<times> globals \<times> event list" where
  "camera_server_start desired_width desired_height g camera_fd env =
     (if camera_fd < 0 then (ESP_ERR_INVALID_ARG, g, [])
      else
        (let (e1, g1, tr1) = camera_state_init (g\<lparr>s_camera_fd := camera_fd\<rparr>) (mutex_create_ok env)
         in
         if e1 \<noteq> ESP_OK then (e1, g1, tr1)
         else
           (let (e2, g2, tr2) =
                  configure_camera_device desired_width desired_height g1 (s_camera_fd g1)
                    (format_resp env)
            in
            if e2 \<noteq> ESP_OK then (e2, g2, tr1 @ tr2)
            else
              (let (e3, g3, tr3) = jpeg_encoder_init g2 (encoder_resp env) in
               if e3 \<noteq> ESP_OK then (e3, g3, tr1 @ tr2 @ tr3)
               else if httpd_start_err env \<noteq> ESP_OK then
                 (let (g4, tr4) = jpeg_encoder_deinit g3
                  in (ESP_FAIL, g4, tr1 @ tr2 @ tr3 @ HttpdStart # tr4))
               else
                 (ESP_OK, g3\<lparr>s_server := httpd_handle env\<rparr>,
                  tr1 @ tr2 @ tr3 @
                  [HttpdStart, HttpdRegisterUriHandler ''/'',
                   HttpdRegisterUriHandler ''/stream'',
                   HttpdRegisterUriHandler ''/capture''])))))"

section \<open>The face-detection task\<close>

record FaceDetectContext =
  camera_fd :: int
  should_stop :: bool
  running :: bool
  stream_started :: bool
  ctx_width :: "32 word"
  ctx_height :: "32 word"
  ctx_pixformat :: "32 word"
  task_handle :: ptr
  buffers :: "mapped_buffer_t list"
  detector :: ptr
  mqtt_client :: ptr

definition s_ctx_init :: FaceDetectContext where
  "s_ctx_init =
     \<lparr>camera_fd = - 1, should_stop = False, running = False, stream_started = False,
      ctx_width = 0, ctx_height = 0, ctx_pixformat = 0, task_handle = NULL, buffers = [],
      detector = NULL, mqtt_client = NULL\<rparr>"

text \<open>\<^verbatim>\<open>configure_camera_device\<close> of \<^verbatim>\<open>face_detect_task.cpp\<close>.\<close>

definition detect_configure_camera_device ::
  "FaceDetectContext \<Rightarrow> format_env \<Rightarrow> esp_err_t \<times> FaceDetectContext \<times> event list" where
  "detect_configure_camera_device ctx env =
     (let fd = camera_fd ctx in
      if g_fmt_ret env < 0 then (ESP_FAIL, ctx, [Ioctl fd VIDIOC_G_FMT])
      else if fmt_pixelformat (g_fmt env) \<noteq> V4L2_PIX_FMT_RGB565 then
        (let (r, fmt) = s_fmt env ((g_fmt env)\<lparr>fmt_pixelformat := V4L2_PIX_FMT_RGB565,
                                               fmt_field := V4L2_FIELD_NONE\<rparr>)
         in
         if r < 0 then (ESP_FAIL, ctx, [Ioctl fd VIDIOC_G_FMT, Ioctl fd VIDIOC_S_FMT])
         else (ESP_OK,
               ctx\<lparr>ctx_width := fmt_width fmt, ctx_height := fmt_height fmt,
                   ctx_pixformat := fmt_pixelformat fmt\<rparr>,
               [Ioctl fd VIDIOC_G_FMT, Ioctl fd VIDIOC_S_FMT]))
      else (ESP_OK,
            ctx\<lparr>ctx_width := fmt_width (g_fmt env), ctx_height := fmt_height (g_fmt env),
                ctx_pixformat := fmt_pixelformat (g_fmt env)\<rparr>,
            [Ioctl fd VIDIOC_G_FMT]))"

text \<open>\<^verbatim>\<open>std::vector::resize\<close> with value-initialised new elements.\<close>

definition resize :: "nat \<Rightarrow> mapped_buffer_t list \<Rightarrow> mapped_buffer_t list" where
  "resize n xs = take n xs @ replicate (n - length xs) \<lparr>buf_addr = NULL, buf_length = 0\<rparr>"

text \<open>The \<^verbatim>\<open>for\<close> loop of \<^verbatim>\<open>init_v4l2_buffers\<close>.\<close>

function init_v4l2_buffers_loop ::
  "int \<Rightarrow> (nat \<Rightarrow> buf_resp) \<Rightarrow> nat \<Rightarrow> nat \<Rightarrow> mapped_buffer_t list
    \<Rightarrow> bool \<times> mapped_buffer_t list \<times> event list" where
  "init_v4l2_buffers_loop fd resp i count bufs =
     (if i < count then
        (let r = resp i in
         if querybuf_ret r < 0 then (False, bufs, [Ioctl fd VIDIOC_QUERYBUF])
         else
           (let bufs1 = bufs[i := \<lparr>buf_addr = mmap_ret r, buf_length = querybuf_length r\<rparr>];
                tr1 = [Ioctl fd VIDIOC_QUERYBUF,
                       Mmap fd (querybuf_length r) (querybuf_offset r) (mmap_ret r)]
            in
            if mmap_ret r = MAP_FAILED then
              (False, bufs1[i := \<lparr>buf_addr = NULL, buf_length = querybuf_length r\<rparr>], tr1)
            else if qbuf_ret r < 0 then (False, bufs1, tr1 @ [Ioctl fd VIDIOC_QBUF])
            else
              (let (ok, bufs2, tr2) = init_v4l2_buffers_loop fd resp (i + 1) count bufs1
               in (ok, bufs2, tr1 @ Ioctl fd VIDIOC_QBUF # tr2))))
      else (True, bufs, []))"
  by pat_completeness auto
termination
  by (relation "measure (\<lambda>(fd, resp, i, count, bufs). count - i)") auto

definition init_v4l2_buffers ::
  "FaceDetectContext \<Rightarrow> session_env \<Rightarrow> esp_err_t \<times> FaceDetectContext \<times> event list" where
  "init_v4l2_buffers ctx env =
     (let fd = camera_fd ctx; count = reqbufs_count env in
      if reqbufs_ret env < 0 \<or> count = 0 then (ESP_FAIL, ctx, [Ioctl fd VIDIOC_REQBUFS])
      else
        (let (ok, bufs, tr) =
               init_v4l2_buffers_loop fd (buf_resps env) 0 count (resize count (buffers ctx))
         in ((if ok then ESP_OK else ESP_FAIL), ctx\<lparr>buffers := bufs\<rparr>,
             Ioctl fd VIDIOC_REQBUFS # tr)))"

definition release_buffers :: "FaceDetectContext \<Rightarrow> FaceDetectContext \<times> event list" where
  "release_buffers ctx =
     (ctx\<lparr>buffers := []\<rparr>,
      concat (map (\<lambda>b. if buf_addr b \<noteq> NULL \<and> buf_addr b \<noteq> MAP_FAILED
                        then [Munmap (buf_addr b) (buf_length b)] else [])
                  (buffers ctx)))"

text \<open>
  The answers for one iteration of the loop of \<^verbatim>\<open>detection_task\<close>: the value
  that \<^verbatim>\<open>should_stop\<close> holds (\<^verbatim>\<open>face_detect_stop\<close> writes it in another
  context) when the loop condition reads it and when it is read again after a failed
  dequeue, and the answers of the device. The context that the model returns holds the
  value last read.
\<close>

record detect_resp =
  stop_at_head :: bool
  det_dqbuf_ret :: int
  det_errno :: int
  stop_after_fail :: bool
  det_index :: nat
  det_requeue_ret :: int

text \<open>
  How an iteration leaves the loop: by the loop condition or a \<^verbatim>\<open>break\<close>, or by the
  exception \<^verbatim>\<open>std::out_of_range\<close> of \<^verbatim>\<open>vector::at\<close>, which nothing catches.
\<close>

datatype loop_exit = LoopBreak | LoopThrow

definition detection_iteration ::
  "FaceDetectContext \<Rightarrow> detect_resp
    \<Rightarrow> FaceDetectContext \<times> event list \<times> loop_exit option" where
  "detection_iteration ctx f =
     (let fd = camera_fd ctx;
          ctx1 = ctx\<lparr>should_stop := stop_at_head f\<rparr>
      in
      if should_stop ctx1 then (ctx1, [], Some LoopBreak)
      else if det_dqbuf_ret f < 0 then
        (if det_errno f = EINTR then (ctx1, [Ioctl fd VIDIOC_DQBUF], None)
         else
           (let ctx2 = ctx1\<lparr>should_stop := stop_after_fail f\<rparr> in
            if should_stop ctx2 then (ctx2, [Ioctl fd VIDIOC_DQBUF], Some LoopBreak)
            else (ctx2, [Ioctl fd VIDIOC_DQBUF], Some LoopBreak)))
      else if \<not> det_index f < length (buffers ctx1) then
        (ctx1, [Ioctl fd VIDIOC_DQBUF], Some LoopThrow)
      else
        (ctx1, [Ioctl fd VIDIOC_DQBUF, DetectorRun, Ioctl fd VIDIOC_QBUF],
         if det_requeue_ret f < 0 then Some LoopBreak else None))"

fun detection_loop ::
  "FaceDetectContext \<Rightarrow> detect_resp list
    \<Rightarrow> FaceDetectContext \<times> event list \<times> loop_exit option" where
  "detection_loop ctx [] = (ctx, [], None)"
| "detection_loop ctx (f # fs) =
     (case detection_iteration ctx f of
        (ctx1, tr, Some x) \<Rightarrow> (ctx1, tr, Some x)
      | (ctx1, tr, None) \<Rightarrow>
          (let (ctx2, tr', r) = detection_loop ctx1 fs in (ctx2, tr @ tr', r)))"

text \<open>
  The task either reaches \<^verbatim>\<open>vTaskDelete\<close>, or is still in its loop when the answers
  are used up, or was ended by the uncaught exception.
\<close>

datatype outcome = Finished | StillRunning | Crashed

text \<open>The \<^verbatim>\<open>do { ... } while (0)\<close> block of \<^verbatim>\<open>detection_task\<close>.\<close>

definition detection_session ::
  "FaceDetectContext \<Rightarrow> format_env \<Rightarrow> session_env \<Rightarrow> detect_resp list
    \<Rightarrow> FaceDetectContext \<times> event list \<times> outcome" where
  "detection_session ctx fenv env frames =
     (if detector ctx = NULL then (ctx, [], Finished)
      else
        (let (e1, ctx1, tr1) = detect_configure_camera_device ctx fenv in
         if e1 \<noteq> ESP_OK then (ctx1, tr1, Finished)
         else
           (let (e2, ctx2, tr2) = init_v4l2_buffers ctx1 env in
            if e2 \<noteq> ESP_OK then (ctx2, tr1 @ tr2, Finished)
            else if streamon_ret env < 0 then
              (ctx2, tr1 @ tr2 @ [Ioctl (camera_fd ctx2) VIDIOC_STREAMON], Finished)
            else
              (let ctx3 = ctx2\<lparr>stream_started := True\<rparr>;
                   (ctx4, tr3, x) = detection_loop ctx3 frames;
                   tr = tr1 @ tr2 @ Ioctl (camera_fd ctx2) VIDIOC_STREAMON # tr3
               in (ctx4, tr,
                   (case x of None \<Rightarrow> StillRunning
                    | Some LoopBreak \<Rightarrow> Finished
                    | Some LoopThrow \<Rightarrow> Crashed))))))"

text \<open>The code of \<^verbatim>\<open>detection_task\<close> after the block.\<close>

definition detection_teardown :: "FaceDetectContext \<Rightarrow> FaceDetectContext \<times> event list" where
  "detection_teardown ctx =
     (let (ctx1, tr1) = (if stream_started ctx
                         then (ctx\<lparr>stream_started := False\<rparr>,
                               [Ioctl (camera_fd ctx) VIDIOC_STREAMOFF])
                         else (ctx, []));
          (ctx2, tr2) = release_buffers ctx1;
          (ctx3, tr3) = (if detector ctx2 \<noteq> NULL
                         then (ctx2\<lparr>detector := NULL\<rparr>, [DeleteHumanFaceDetect (detector ctx2)])
                         else (ctx2, []))
      in (ctx3\<lparr>task_handle := NULL, running := False\<rparr>, tr1 @ tr2 @ tr3 @ [VTaskDelete]))"

definition detection_task ::
  "FaceDetectContext \<Rightarrow> format_env \<Rightarrow> session_env \<Rightarrow> detect_resp list
    \<Rightarrow> FaceDetectContext \<times> event list \<times> outcome" where
  "detection_task ctx fenv env frames =
     (case detection_session ctx fenv env frames of
        (ctx1, tr1, Finished) \<Rightarrow>
          (let (ctx2, tr2) = detection_teardown ctx1 in (ctx2, tr1 @ tr2, Finished))
      | (ctx1, tr1, StillRunning) \<Rightarrow> (ctx1, tr1, StillRunning)
      | (ctx1, tr1, Crashed) \<Rightarrow> (ctx1, tr1, Crashed))"

text \<open>
  \<^verbatim>\<open>face_detect_start\<close>. The build option \<^verbatim>\<open>CONFIG_APP_ENABLE_FACE_DETECTION\<close> is
  the parameter \<open>enabled\<close>; the answers are the pointer that \<^verbatim>\<open>new\<close> returns,
  whether \<^verbatim>\<open>xTaskCreatePinnedToCore\<close> returns \<^verbatim>\<open>pdPASS\<close>, and the task handle.
\<close>

record start_env =
  new_detector :: ptr
  task_create_ok :: bool
  created_task :: ptr

definition face_detect_start ::
  "bool \<Rightarrow> FaceDetectContext \<Rightarrow> int \<Rightarrow> ptr \<Rightarrow> start_env
    \<Rightarrow> esp_err_t \<times> FaceDetectContext \<times> event list" where
  "face_detect_start enabled ctx fd mqtt env =
     (if \<not> enabled then (ESP_ERR_NOT_SUPPORTED, ctx, [])
      else if fd < 0 then (ESP_ERR_INVALID_ARG, ctx, [])
      else if running ctx then (ESP_ERR_INVALID_STATE, ctx, [])
      else
        (let ctx1 = ctx\<lparr>camera_fd := fd, mqtt_client := mqtt, should_stop := False,
                        detector := new_detector env\<rparr>
         in
         if detector ctx1 = NULL then (ESP_ERR_NO_MEM, ctx1, [NewHumanFaceDetect])
         else if \<not> task_create_ok env then
           (ESP_FAIL, ctx1\<lparr>detector := NULL\<rparr>,
            [NewHumanFaceDetect, XTaskCreatePinnedToCore, DeleteHumanFaceDetect (detector ctx1)])
         else
           (ESP_OK, ctx1\<lparr>task_handle := created_task env, running := True\<rparr>,
            [NewHumanFaceDetect, XTaskCreatePinnedToCore])))"

section \<open>Observations on traces\<close>

text \<open>The regions mapped with success and the regions unmapped, in the order of a trace.\<close>

fun mapped :: "event list \<Rightarrow> (ptr \<times> 32 word) list" where
  "mapped [] = []"
| "mapped (Mmap fd len off p # es) = (if p \<noteq> MAP_FAILED then (p, len) # mapped es else mapped es)"
| "mapped (e # es) = mapped es"

fun unmapped :: "event list \<Rightarrow> (ptr \<times> 32 word) list" where
  "unmapped [] = []"
| "unmapped (Munmap p len # es) = (p, len) # unmapped es"
| "unmapped (e # es) = unmapped es"

text \<open>The number of \<^verbatim>\<open>xSemaphoreGive\<close> calls and of \<^verbatim>\<open>xSemaphoreTake\<close> calls.\<close>

fun gives :: "event list \<Rightarrow> nat" where
  "gives [] = 0"
| "gives (XSemaphoreGive # es) = Suc (gives es)"
| "gives (e # es) = gives es"

fun takes :: "event list \<Rightarrow> nat" where
  "takes [] = 0"
| "takes (XSemaphoreTake ms ok # es) = Suc (takes es)"
| "takes (e # es) = takes es"

text \<open>The calls on the capture device: \<^verbatim>\<open>ioctl\<close>, \<^verbatim>\<open>mmap\<close> and \<^verbatim>\<open>munmap\<close>.\<close>

fun device_call :: "event \<Rightarrow> bool" where
  "device_call (Ioctl fd req) = True"
| "device_call (Mmap fd len off p) = True"
| "device_call (Munmap p len) = True"
| "device_call e = False"

fun device_calls :: "event list \<Rightarrow> nat" where
  "device_calls [] = 0"
| "device_calls (e # es) = (if device_call e then Suc (device_calls es) else device_calls es)"

text \<open>
  \<open>gated held tr\<close>: running through the trace \<open>tr\<close>, starting with the lock held by
  the running code or not, every call on the capture device happens while the lock is
  held: after a granted \<^verbatim>\<open>xSemaphoreTake\<close> and before the next \<^verbatim>\<open>xSemaphoreGive\<close>.
\<close>

fun gated :: "bool \<Rightarrow> event list \<Rightarrow> bool" where
  "gated held [] = True"
| "gated held (XSemaphoreTake ms ok # es) = gated (held \<or> ok) es"
| "gated held (XSemaphoreGive # es) = gated False es"
| "gated held (e # es) = (if device_call e then held \<and> gated held es else gated held es)"

text \<open>The number of \<^verbatim>\<open>ioctl\<close> calls with a given request.\<close>

fun ioctls :: "vidioc \<Rightarrow> event list \<Rightarrow> nat" where
  "ioctls req [] = 0"
| "ioctls req (Ioctl fd r # es) = (if r = req then Suc (ioctls req es) else ioctls req es)"
| "ioctls req (e # es) = ioctls req es"

section \<open>Sample states and answers\<close>

text \<open>
  The server after a successful start on descriptor 3 at 640 by 480 in RGB565, a device
  that grants three buffers of one frame each, and some frames.
\<close>

definition g_ready :: globals where
  "g_ready =
     \<lparr>s_server = 1073741824, s_camera_fd = 3,
      s_stream_state = \<lparr>width = 640, height = 480, pixformat = V4L2_PIX_FMT_RGB565,
                        lock = Some Free\<rparr>,
      s_jpeg_state = \<lparr>handle = 1073745920, src_format = JPEG_ENCODE_IN_FORMAT_RGB565,
        sub_sample = JPEG_DOWN_SAMPLING_YUV422, src_stride = 614400, out_buf = 1207959552,
        out_buf_size = 614400, quality = 75, initialized = True\<rparr>\<rparr>"

definition buf_ok :: "nat \<Rightarrow> buf_resp" where
  "buf_ok i =
     \<lparr>querybuf_ret = 0, querybuf_length = 614400, querybuf_offset = of_nat i * 614400,
      mmap_ret = (if i = 0 then 1210056704 else if i = 1 then 1210671104 else 1211285504),
      qbuf_ret = 0\<rparr>"

definition env_ok :: session_env where
  "env_ok =
     \<lparr>lock_given_back = False, reqbufs_ret = 0, reqbufs_count = 3, calloc_ok = True,
      buf_resps = buf_ok, streamon_ret = 0\<rparr>"


definition frame_ok :: frame_resp where
  "frame_ok =
     \<lparr>dqbuf_ret = 0, dqbuf_errno = 0, dqbuf_flags = 4, dqbuf_index = 0,
      dqbuf_bytesused = 614400, encode_err = ESP_OK, encode_size = 20000,
      send_boundary = ESP_OK, snprintf_ret = 50, send_part = ESP_OK, send_jpeg = ESP_OK,
      requeue_ret = 0\<rparr>"

definition frame_encode_fails :: frame_resp where
  "frame_encode_fails = frame_ok\<lparr>encode_err := ESP_FAIL\<rparr>"

definition frame_disconnected :: frame_resp where
  "frame_disconnected = frame_ok\<lparr>send_boundary := ESP_FAIL\<rparr>"

definition frame_interrupted :: frame_resp where
  "frame_interrupted = frame_ok\<lparr>dqbuf_ret := - 1, dqbuf_errno := EINTR\<rparr>"

definition g_busy :: globals where
  "g_busy = g_ready\<lparr>s_stream_state := (s_stream_state g_ready)\<lparr>lock := Some Held\<rparr>\<rparr>"


definition fmt_accepting :: format_env where
  "fmt_accepting =
     \<lparr>g_fmt_ret = 0,
      g_fmt = \<lparr>fmt_width = 800, fmt_height = 640, fmt_pixelformat = V4L2_PIX_FMT_GREY,
               fmt_field = 0\<rparr>,
      s_fmt = (\<lambda>req. (0, req))\<rparr>"


definition fmt_rgb_already :: format_env where
  "fmt_rgb_already =
     \<lparr>g_fmt_ret = 0,
      g_fmt = \<lparr>fmt_width = 800, fmt_height = 640, fmt_pixelformat = V4L2_PIX_FMT_RGB565,
               fmt_field = 0\<rparr>,
      s_fmt = (\<lambda>req. (- 1, req))\<rparr>"

definition enc_ok :: encoder_env where
  "enc_ok =
     \<lparr>new_engine_err = ESP_OK, new_engine_handle = 1073745920, alloc_mem_ret = 1207959552,
      alloc_mem_actual = 614400\<rparr>"

definition enc_no_mem :: encoder_env where
  "enc_no_mem = enc_ok\<lparr>alloc_mem_ret := NULL, alloc_mem_actual := 0\<rparr>"

definition g_grey :: globals where
  "g_grey = s_globals_init\<lparr>s_stream_state :=
     \<lparr>width = 640, height = 480, pixformat = V4L2_PIX_FMT_GREY, lock = Some Free\<rparr>\<rparr>"

definition srv_env :: server_env where
  "srv_env =
     \<lparr>mutex_create_ok = True, format_resp = fmt_accepting, encoder_resp = enc_ok,
      httpd_start_err = ESP_OK, httpd_handle = 1073741824\<rparr>"

text \<open>A detection context as \<^verbatim>\<open>face_detect_start\<close> leaves it, and answers for it.\<close>

definition start_ok :: start_env where
  "start_ok = \<lparr>new_detector = 1073750016, task_create_ok = True, created_task = 1073754112\<rparr>"

definition ctx_started :: FaceDetectContext where
  "ctx_started =
     s_ctx_init\<lparr>camera_fd := 3, detector := 1073750016, task_handle := 1073754112,
                running := True\<rparr>"

definition det_ok :: detect_resp where
  "det_ok =
     \<lparr>stop_at_head = False, det_dqbuf_ret = 0, det_errno = 0, stop_after_fail = False,
      det_index = 0, det_requeue_ret = 0\<rparr>"

definition det_interrupted :: detect_resp where
  "det_interrupted = det_ok\<lparr>det_dqbuf_ret := - 1, det_errno := EINTR\<rparr>"

definition det_stop :: detect_resp where
  "det_stop = det_ok\<lparr>stop_at_head := True\<rparr>"



section \<open>Vocabulary of the statements\<close>

text \<open>The four pixel formats that the \<^verbatim>\<open>switch\<close> of \<^verbatim>\<open>jpeg_encoder_init\<close> names.\<close>

definition supported_pixformat :: "32 word \<Rightarrow> bool" where
  "supported_pixformat pf =
     (pf = V4L2_PIX_FMT_RGB565 \<or> pf = V4L2_PIX_FMT_RGB24 \<or> pf = V4L2_PIX_FMT_YUV422P \<or>
      pf = V4L2_PIX_FMT_GREY)"






section \<open>Basic facts\<close>

lemmas esp_err_defs =
  ESP_OK_def ESP_FAIL_def ESP_ERR_NO_MEM_def ESP_ERR_INVALID_ARG_def
  ESP_ERR_INVALID_STATE_def ESP_ERR_NOT_SUPPORTED_def

lemmas pix_fmt_defs =
  V4L2_PIX_FMT_RGB565_def V4L2_PIX_FMT_RGB24_def V4L2_PIX_FMT_YUV422P_def
  V4L2_PIX_FMT_GREY_def V4L2_PIX_FMT_JPEG_def v4l2_fourcc_def

lemma pix_fmt_values:
  "V4L2_PIX_FMT_RGB565 = 0x50424752" "V4L2_PIX_FMT_RGB24 = 0x33424752"
  "V4L2_PIX_FMT_YUV422P = 0x50323234" "V4L2_PIX_FMT_GREY = 0x59455247"
  "V4L2_PIX_FMT_JPEG = 0x4745504A"
  by (simp_all add: pix_fmt_defs)

lemma release_free:
  "lock (s_stream_state g) = Some Free \<Longrightarrow> camera_lock_release g = (g, [XSemaphoreGive])"
  by (simp add: camera_lock_release_def xSemaphoreGive_def)

lemma release_none: "lock (s_stream_state g) = None \<Longrightarrow> camera_lock_release g = (g, [])"
  by (simp add: camera_lock_release_def xSemaphoreGive_def)

lemma acquire_denied:
  "\<not> fst (camera_lock_acquire g b) \<Longrightarrow>
   camera_lock_acquire g b =
     (False, g, case lock (s_stream_state g) of None \<Rightarrow> []
                | Some m \<Rightarrow> [XSemaphoreTake CAMERA_LOCK_TIMEOUT_MS False])"
  by (cases "lock (s_stream_state g)")
     (auto simp: camera_lock_acquire_def xSemaphoreTake_def split: mutex.splits if_splits)

lemma acquire_granted:
  "fst (camera_lock_acquire g b) \<Longrightarrow>
   camera_lock_acquire g b =
     (True, g\<lparr>s_stream_state := (s_stream_state g)\<lparr>lock := Some Held\<rparr>\<rparr>,
      [XSemaphoreTake CAMERA_LOCK_TIMEOUT_MS True])"
  by (cases "lock (s_stream_state g)")
     (auto simp: camera_lock_acquire_def xSemaphoreTake_def split: mutex.splits if_splits)

section \<open>The lock when it is not held, and when it is not granted\<close>

text \<open>
  Claim C9. Releasing the camera lock while it is not held changes nothing: when the
  mutex was never created \<^verbatim>\<open>camera_lock_release\<close> calls nothing, and when the mutex
  is free the \<^verbatim>\<open>xSemaphoreGive\<close> it calls fails and leaves the mutex free. In both
  cases the state of the server after the call is the state before it.
\<close>

theorem release_when_not_held:
  "(lock (s_stream_state g) = None \<longrightarrow> camera_lock_release g = (g, [])) \<and>
   (lock (s_stream_state g) = Some Free \<longrightarrow>
      camera_lock_release g = (g, [XSemaphoreGive]) \<and> xSemaphoreGive Free = (False, Free))"
  by (simp add: release_free release_none xSemaphoreGive_def)

theorem release_when_not_held_witness:
  "lock (s_stream_state g_ready) = Some Free \<and>
   camera_lock_release g_ready = (g_ready, [XSemaphoreGive]) \<and>
   xSemaphoreGive Free = (False, Free) \<and>
   lock (s_stream_state s_globals_init) = None \<and>
   camera_lock_release s_globals_init = (s_globals_init, [])"
proof -
  have a: "lock (s_stream_state g_ready) = Some Free" by (simp add: g_ready_def)
  have b: "lock (s_stream_state s_globals_init) = None" by (simp add: s_globals_init_def)
  show ?thesis
    using a b release_when_not_held [of g_ready] release_when_not_held [of s_globals_init]
    by simp
qed

text \<open>
  Claim C8. When \<^verbatim>\<open>camera_lock_acquire\<close> does not grant the lock (the mutex is held
  and not given back within \<^verbatim>\<open>CAMERA_LOCK_TIMEOUT_MS\<close> = 10000 ms, or it does not
  exist), the stream handler and the capture handler answer with status 500 and the text
  ``Camera busy'', return \<^verbatim>\<open>ESP_FAIL\<close>, leave the state as it was, call the capture
  device not once and take the mutex at most once.
\<close>

theorem lock_timeout_camera_busy:
  assumes "\<not> fst (camera_lock_acquire g (lock_given_back env))"
  shows "stream_handler g env frames =
           (g, (case lock (s_stream_state g) of None \<Rightarrow> []
                | Some m \<Rightarrow> [XSemaphoreTake 10000 False]) @
               [HttpdRespSendErr 500 ''Camera busy''], Some ESP_FAIL) \<and>
         capture_handler g env f =
           (g, (case lock (s_stream_state g) of None \<Rightarrow> []
                | Some m \<Rightarrow> [XSemaphoreTake 10000 False]) @
               [HttpdRespSendErr 500 ''Camera busy''], ESP_FAIL) \<and>
         device_calls (fst (snd (stream_handler g env frames))) = 0 \<and>
         device_calls (fst (snd (capture_handler g env f))) = 0 \<and>
         takes (fst (snd (stream_handler g env frames))) \<le> 1 \<and>
         takes (fst (snd (capture_handler g env f))) \<le> 1 \<and>
         ESP_FAIL \<noteq> ESP_OK"
  using acquire_denied [OF assms]
  by (simp add: stream_handler_def capture_handler_def CAMERA_LOCK_TIMEOUT_MS_def esp_err_defs
        split: option.splits)

theorem lock_timeout_camera_busy_witness:
  "\<not> fst (camera_lock_acquire g_busy (lock_given_back env_ok)) \<and>
   stream_handler g_busy env_ok [frame_ok] =
     (g_busy, [XSemaphoreTake 10000 False, HttpdRespSendErr 500 ''Camera busy''],
      Some ESP_FAIL) \<and>
   capture_handler g_busy env_ok frame_ok =
     (g_busy, [XSemaphoreTake 10000 False, HttpdRespSendErr 500 ''Camera busy''], ESP_FAIL)"
proof -
  have l: "lock (s_stream_state g_busy) = Some Held" by (simp add: g_busy_def)
  have h: "\<not> fst (camera_lock_acquire g_busy (lock_given_back env_ok))"
    by (simp add: camera_lock_acquire_def xSemaphoreTake_def l env_ok_def)
  show ?thesis
    using h l lock_timeout_camera_busy [OF h, of "[frame_ok]" frame_ok] by simp
qed

section \<open>The start entry points\<close>

text \<open>
  Claim C10, as stated, fails where face detection is compiled out
  (\<^verbatim>\<open>CONFIG_APP_ENABLE_FACE_DETECTION\<close> off): \<^verbatim>\<open>face_detect_start\<close> then answers
  \<^verbatim>\<open>ESP_ERR_NOT_SUPPORTED\<close> to a negative descriptor, not
  \<^verbatim>\<open>ESP_ERR_INVALID_ARG\<close>.
\<close>

theorem start_disabled_counterexample:
  "face_detect_start False s_ctx_init (- 1) NULL start_ok =
     (ESP_ERR_NOT_SUPPORTED, s_ctx_init, []) \<and>
   ESP_ERR_NOT_SUPPORTED \<noteq> ESP_ERR_INVALID_ARG"
  by (simp add: face_detect_start_def esp_err_defs)

text \<open>
  Claim C10, amended. For a negative descriptor \<^verbatim>\<open>camera_server_start\<close> returns
  \<^verbatim>\<open>ESP_ERR_INVALID_ARG\<close> with the state unchanged and no call made (no HTTP server,
  no device call), and \<^verbatim>\<open>face_detect_start\<close>, when face detection is compiled in,
  returns \<^verbatim>\<open>ESP_ERR_INVALID_ARG\<close> with its context unchanged and no call made (no
  detector, no task). With a valid descriptor and a task already running it returns
  \<^verbatim>\<open>ESP_ERR_INVALID_STATE\<close>, again without effect. When face detection is compiled
  out it returns \<^verbatim>\<open>ESP_ERR_NOT_SUPPORTED\<close> for every input, without effect.
\<close>

theorem start_rejects_bad_descriptor:
  "(fd < 0 \<longrightarrow>
      camera_server_start dw dh g fd senv = (ESP_ERR_INVALID_ARG, g, []) \<and>
      face_detect_start True ctx fd mqtt env = (ESP_ERR_INVALID_ARG, ctx, [])) \<and>
   (0 \<le> fd \<and> running ctx \<longrightarrow>
      face_detect_start True ctx fd mqtt env = (ESP_ERR_INVALID_STATE, ctx, [])) \<and>
   face_detect_start False ctx fd mqtt env = (ESP_ERR_NOT_SUPPORTED, ctx, [])"
  by (simp add: camera_server_start_def face_detect_start_def)

theorem start_rejects_bad_descriptor_witness:
  "(- 1 :: int) < 0 \<and>
   camera_server_start 640 480 s_globals_init (- 1) srv_env =
     (ESP_ERR_INVALID_ARG, s_globals_init, []) \<and>
   face_detect_start True s_ctx_init (- 1) NULL start_ok =
     (ESP_ERR_INVALID_ARG, s_ctx_init, []) \<and>
   (0 :: int) \<le> 3 \<and> running ctx_started \<and>
   face_detect_start True ctx_started 3 NULL start_ok =
     (ESP_ERR_INVALID_STATE, ctx_started, [])"
proof -
  have r: "running ctx_started" by (simp add: ctx_started_def)
  show ?thesis
    using r
      start_rejects_bad_descriptor [of "- 1" 640 480 s_globals_init srv_env s_ctx_init NULL start_ok]
      start_rejects_bad_descriptor [of 3 640 480 s_globals_init srv_env ctx_started NULL start_ok]
    by simp
qed

section \<open>Configuring the encoder\<close>

lemma encoder_params_supported:
  "encoder_params V4L2_PIX_FMT_RGB565 =
     Some (JPEG_ENCODE_IN_FORMAT_RGB565, JPEG_DOWN_SAMPLING_YUV422, 16)"
  "encoder_params V4L2_PIX_FMT_RGB24 =
     Some (JPEG_ENCODE_IN_FORMAT_RGB888, JPEG_DOWN_SAMPLING_YUV444, 24)"
  "encoder_params V4L2_PIX_FMT_YUV422P =
     Some (JPEG_ENCODE_IN_FORMAT_YUV422, JPEG_DOWN_SAMPLING_YUV422, 16)"
  "encoder_params V4L2_PIX_FMT_GREY =
     Some (JPEG_ENCODE_IN_FORMAT_GRAY, JPEG_DOWN_SAMPLING_GRAY, 8)"
  by (simp_all add: encoder_params_def pix_fmt_values)

lemma encoder_params_None: "encoder_params pf = None \<longleftrightarrow> \<not> supported_pixformat pf"
  by (simp add: encoder_params_def supported_pixformat_def)

text \<open>
  Claim C6. Starting from an encoder that is not initialised:
  for each of the four supported pixel formats \<^verbatim>\<open>jpeg_encoder_init\<close> returns
  \<^verbatim>\<open>ESP_OK\<close> and leaves the encoder initialised, once the driver has given an engine
  and an output buffer; for every other pixel format it returns
  \<^verbatim>\<open>ESP_ERR_NOT_SUPPORTED\<close>, calls nothing and changes nothing; when the output
  buffer cannot be allocated it returns \<^verbatim>\<open>ESP_ERR_NO_MEM\<close>, its last call deletes
  the engine it had created and the handle is null again; and after every failure the
  encoder is not initialised and owns no new output buffer.
\<close>

theorem jpeg_encoder_init_formats:
  assumes "\<not> initialized (s_jpeg_state g)"
  shows
    "(supported_pixformat (pixformat (s_stream_state g)) \<and> new_engine_err env = ESP_OK \<and>
      alloc_mem_ret env \<noteq> NULL \<longrightarrow>
        fst (jpeg_encoder_init g env) = ESP_OK \<and>
        initialized (s_jpeg_state (fst (snd (jpeg_encoder_init g env)))) \<and>
        handle (s_jpeg_state (fst (snd (jpeg_encoder_init g env)))) = new_engine_handle env \<and>
        out_buf (s_jpeg_state (fst (snd (jpeg_encoder_init g env)))) = alloc_mem_ret env) \<and>
     (\<not> supported_pixformat (pixformat (s_stream_state g)) \<longrightarrow>
        jpeg_encoder_init g env = (ESP_ERR_NOT_SUPPORTED, g, [])) \<and>
     (supported_pixformat (pixformat (s_stream_state g)) \<and> new_engine_err env = ESP_OK \<and>
      alloc_mem_ret env = NULL \<longrightarrow>
        fst (jpeg_encoder_init g env) = ESP_ERR_NO_MEM \<and>
        fst (snd (jpeg_encoder_init g env)) =
          g\<lparr>s_jpeg_state := (s_jpeg_state g)\<lparr>handle := NULL\<rparr>\<rparr> \<and>
        last (snd (snd (jpeg_encoder_init g env))) =
          JpegDelEncoderEngine (new_engine_handle env)) \<and>
     (fst (jpeg_encoder_init g env) \<noteq> ESP_OK \<longrightarrow>
        \<not> initialized (s_jpeg_state (fst (snd (jpeg_encoder_init g env)))) \<and>
        out_buf (s_jpeg_state (fst (snd (jpeg_encoder_init g env)))) = out_buf (s_jpeg_state g)) \<and>
     ESP_ERR_NOT_SUPPORTED \<noteq> ESP_OK \<and> ESP_ERR_NO_MEM \<noteq> ESP_OK"
proof (cases "encoder_params (pixformat (s_stream_state g))")
  case None
  then show ?thesis
    using assms encoder_params_None [of "pixformat (s_stream_state g)"]
    by (simp add: jpeg_encoder_init_def esp_err_defs)
next
  case (Some p)
  obtain fmt sub bpp where p: "p = (fmt, sub, bpp)" by (cases p) auto
  have s: "supported_pixformat (pixformat (s_stream_state g))"
    using Some encoder_params_None [of "pixformat (s_stream_state g)"] by simp
  show ?thesis
    using assms Some p s
    by (simp add: jpeg_encoder_init_def Let_def esp_err_defs)
qed

theorem jpeg_encoder_init_formats_witness:
  "\<not> initialized (s_jpeg_state g_grey) \<and>
   supported_pixformat (pixformat (s_stream_state g_grey)) \<and>
   new_engine_err enc_ok = ESP_OK \<and> alloc_mem_ret enc_ok \<noteq> NULL \<and>
   fst (jpeg_encoder_init g_grey enc_ok) = ESP_OK \<and>
   initialized (s_jpeg_state (fst (snd (jpeg_encoder_init g_grey enc_ok)))) \<and>
   new_engine_err enc_no_mem = ESP_OK \<and> alloc_mem_ret enc_no_mem = NULL \<and>
   fst (jpeg_encoder_init g_grey enc_no_mem) = ESP_ERR_NO_MEM \<and>
   \<not> initialized (s_jpeg_state (fst (snd (jpeg_encoder_init g_grey enc_no_mem)))) \<and>
   handle (s_jpeg_state (fst (snd (jpeg_encoder_init g_grey enc_no_mem)))) = NULL \<and>
   \<not> initialized (s_jpeg_state s_globals_init) \<and>
   \<not> supported_pixformat (pixformat (s_stream_state s_globals_init)) \<and>
   jpeg_encoder_init s_globals_init enc_ok = (ESP_ERR_NOT_SUPPORTED, s_globals_init, [])"
proof -
  have a: "\<not> initialized (s_jpeg_state g_grey)"
    by (simp add: g_grey_def s_globals_init_def)
  have b: "supported_pixformat (pixformat (s_stream_state g_grey))"
    by (simp add: g_grey_def supported_pixformat_def)
  have c: "new_engine_err enc_ok = ESP_OK" "alloc_mem_ret enc_ok \<noteq> NULL"
    "new_engine_err enc_no_mem = ESP_OK" "alloc_mem_ret enc_no_mem = NULL"
    by (simp_all add: enc_ok_def enc_no_mem_def NULL_def)
  have d: "\<not> initialized (s_jpeg_state s_globals_init)"
    by (simp add: s_globals_init_def)
  have e: "\<not> supported_pixformat (pixformat (s_stream_state s_globals_init))"
    by (simp add: s_globals_init_def supported_pixformat_def pix_fmt_values)
  show ?thesis
    using a b c d e
      jpeg_encoder_init_formats [OF a, of enc_ok]
      jpeg_encoder_init_formats [OF a, of enc_no_mem]
      jpeg_encoder_init_formats [OF d, of enc_ok]
    by (simp add: esp_err_defs)
qed

section \<open>Format negotiation\<close>




section \<open>Capture sessions\<close>

subsection \<open>Traces in sequence\<close>

lemma mapped_append: "mapped (a @ b) = mapped a @ mapped b"
  by (induction a rule: mapped.induct) simp_all

lemma unmapped_append: "unmapped (a @ b) = unmapped a @ unmapped b"
  by (induction a rule: unmapped.induct) simp_all

lemma gives_append: "gives (a @ b) = gives a + gives b"
  by (induction a rule: gives.induct) simp_all

lemma takes_append: "takes (a @ b) = takes a + takes b"
  by (induction a rule: takes.induct) simp_all

lemma device_calls_append: "device_calls (a @ b) = device_calls a + device_calls b"
  by (induction a) simp_all

lemma ioctls_append: "ioctls req (a @ b) = ioctls req a + ioctls req b"
  by (induction req a rule: ioctls.induct) simp_all

lemmas trace_append =
  mapped_append unmapped_append gives_append takes_append device_calls_append ioctls_append

lemma gated_quiet:
  "takes tr = 0 \<Longrightarrow> gives tr = 0 \<Longrightarrow> gated True (tr @ rest) = gated True rest"
proof (induction tr)
  case Nil
  then show ?case by simp
next
  case (Cons e tr)
  then show ?case by (cases e) simp_all
qed

lemma gated_no_device: "device_calls tr = 0 \<Longrightarrow> gives tr = 0 \<Longrightarrow> gated h tr"
proof (induction tr arbitrary: h)
  case Nil
  then show ?case by simp
next
  case (Cons e tr)
  then show ?case by (cases e) (simp_all split: if_splits)
qed

subsection \<open>Descriptor arrays\<close>







lemma unmap_buffers_quiet:
  "takes (unmap_buffers n bufs) = 0 \<and> gives (unmap_buffers n bufs) = 0 \<and>
   mapped (unmap_buffers n bufs) = [] \<and> ioctls req (unmap_buffers n bufs) = 0"
  unfolding unmap_buffers_def by (induction n) (simp_all add: trace_append)

subsection \<open>The setup loop\<close>

declare map_buffers.simps [simp del]
declare init_v4l2_buffers_loop.simps [simp del]

lemma map_buffers_quiet:
  "map_buffers fd resp i count bufs = (ok, bufs', tr) \<Longrightarrow>
   takes tr = 0 \<and> gives tr = 0 \<and> unmapped tr = [] \<and> length bufs' = length bufs \<and>
   ioctls VIDIOC_DQBUF tr = 0"
proof (induction fd resp i count bufs arbitrary: ok bufs' tr rule: map_buffers.induct)
  case (1 fd resp i count bufs)
  from "1.prems" show ?case
    apply (subst (asm) map_buffers.simps)
    apply (auto simp: Let_def trace_append split: if_splits prod.splits dest!: "1.IH" [OF _ refl _ refl refl])
    done
qed


subsection \<open>The streaming loop\<close>

lemma jpeg_encode_frame_trace:
  "jpeg_encode_frame g e n = (err, sz, tr) \<Longrightarrow>
   tr = (if initialized (s_jpeg_state g) then [JpegEncoderProcess] else [])"
  by (auto simp: jpeg_encode_frame_def split: if_splits)

lemma stream_iteration_quiet:
  "stream_iteration g f = (tr, r) \<Longrightarrow>
   takes tr = 0 \<and> gives tr = 0 \<and> mapped tr = [] \<and> unmapped tr = []"
  by (auto simp: stream_iteration_def Let_def trace_append
        split: if_splits prod.splits dest!: jpeg_encode_frame_trace)

lemma stream_loop_quiet:
  "stream_loop g fs = (tr, r) \<Longrightarrow>
   takes tr = 0 \<and> gives tr = 0 \<and> mapped tr = [] \<and> unmapped tr = []"
proof (induction fs arbitrary: tr r)
  case Nil
  then show ?case by simp
next
  case (Cons f fs)
  obtain tr1 r1 where it: "stream_iteration g f = (tr1, r1)"
    by (cases "stream_iteration g f") auto
  note q1 = stream_iteration_quiet [OF it]
  show ?case
  proof (cases r1)
    case (Some ret)
    then show ?thesis using Cons.prems it q1 by auto
  next
    case None
    obtain tr2 r2 where lp: "stream_loop g fs = (tr2, r2)"
      by (cases "stream_loop g fs") auto
    note q2 = Cons.IH [OF lp]
    show ?thesis using Cons.prems it None lp q1 q2 by (auto simp: trace_append)
  qed
qed

lemma stream_session_quiet:
  "stream_session g env frames = (tr, res) \<Longrightarrow>
   takes tr = 0 \<and> gives tr = 0 \<and> unmapped tr = []"
proof -
  assume a: "stream_session g env frames = (tr, res)"
  obtain ok bufs tr1 where m:
    "map_buffers (s_camera_fd g) (buf_resps env) 0 (reqbufs_count env)
       (replicate (reqbufs_count env) \<lparr>buf_addr = NULL, buf_length = 0\<rparr>) = (ok, bufs, tr1)"
    by (metis prod_cases3)
  obtain tr2 r2 where l: "stream_loop g frames = (tr2, r2)"
    by (cases "stream_loop g frames") auto
  note q1 = map_buffers_quiet [OF m] and q2 = stream_loop_quiet [OF l]
  show ?thesis
    using a m l q1 q2
    by (auto simp: stream_session_def Let_def trace_append split: if_splits option.splits)
qed


lemma stream_cleanup_quiet:
  "takes (stream_cleanup fd bs count started) = 0 \<and>
   gives (stream_cleanup fd bs count started) = 0 \<and>
   mapped (stream_cleanup fd bs count started) = []"
  using unmap_buffers_quiet
  by (auto simp: stream_cleanup_def trace_append split: option.splits)

subsection \<open>The capture session\<close>

lemma capture_session_quiet:
  "capture_session g env f = (tr, ret, buffer, started) \<Longrightarrow>
   takes tr = 0 \<and> gives tr = 0 \<and> unmapped tr = []"
  by (auto simp: capture_session_def Let_def trace_append
        split: if_splits prod.splits dest!: jpeg_encode_frame_trace)


lemma capture_cleanup_quiet:
  "takes (capture_cleanup fd buffer started) = 0 \<and>
   gives (capture_cleanup fd buffer started) = 0 \<and>
   mapped (capture_cleanup fd buffer started) = []"
  by (simp add: capture_cleanup_def)

subsection \<open>The handlers\<close>

lemma stream_handler_granted:
  assumes "fst (camera_lock_acquire g (lock_given_back env))"
  shows "stream_handler g env frames =
    (case stream_session (g\<lparr>s_stream_state := (s_stream_state g)\<lparr>lock := Some Held\<rparr>\<rparr>) env frames of
       (tr1, None) \<Rightarrow>
         (g\<lparr>s_stream_state := (s_stream_state g)\<lparr>lock := Some Held\<rparr>\<rparr>,
          XSemaphoreTake CAMERA_LOCK_TIMEOUT_MS True # tr1, None)
     | (tr1, Some (ret, bs, count, started)) \<Rightarrow>
         (g\<lparr>s_stream_state := (s_stream_state g)\<lparr>lock := Some Free\<rparr>\<rparr>,
          XSemaphoreTake CAMERA_LOCK_TIMEOUT_MS True # tr1 @
            stream_cleanup (s_camera_fd g) bs count started @ [XSemaphoreGive],
          Some ret))"
  using acquire_granted [OF assms]
  by (simp add: stream_handler_def camera_lock_release_def xSemaphoreGive_def
        split: prod.splits option.splits)

lemma capture_handler_granted:
  assumes "fst (camera_lock_acquire g (lock_given_back env))"
  shows "capture_handler g env f =
    (case capture_session (g\<lparr>s_stream_state := (s_stream_state g)\<lparr>lock := Some Held\<rparr>\<rparr>) env f of
       (tr1, ret, buffer, started) \<Rightarrow>
         (g\<lparr>s_stream_state := (s_stream_state g)\<lparr>lock := Some Free\<rparr>\<rparr>,
          XSemaphoreTake CAMERA_LOCK_TIMEOUT_MS True # tr1 @
            capture_cleanup (s_camera_fd g) buffer started @ [XSemaphoreGive],
          ret))"
  using acquire_granted [OF assms]
  by (simp add: capture_handler_def camera_lock_release_def xSemaphoreGive_def
        split: prod.splits option.splits)

lemma stream_handler_denied:
  assumes "\<not> fst (camera_lock_acquire g (lock_given_back env))"
  shows "stream_handler g env frames =
           (g, (case lock (s_stream_state g) of None \<Rightarrow> []
                | Some m \<Rightarrow> [XSemaphoreTake CAMERA_LOCK_TIMEOUT_MS False]) @
               [HttpdRespSendErr 500 ''Camera busy''], Some ESP_FAIL)"
  using acquire_denied [OF assms] by (simp add: stream_handler_def)

lemma capture_handler_denied:
  assumes "\<not> fst (camera_lock_acquire g (lock_given_back env))"
  shows "capture_handler g env f =
           (g, (case lock (s_stream_state g) of None \<Rightarrow> []
                | Some m \<Rightarrow> [XSemaphoreTake CAMERA_LOCK_TIMEOUT_MS False]) @
               [HttpdRespSendErr 500 ''Camera busy''], ESP_FAIL)"
  using acquire_denied [OF assms] by (simp add: capture_handler_def)

subsection \<open>Sample runs\<close>

lemmas sample_defs =
  g_ready_def g_busy_def env_ok_def buf_ok_def frame_ok_def frame_encode_fails_def
  frame_disconnected_def frame_interrupted_def

lemmas handler_defs =
  stream_handler_def stream_session_def stream_cleanup_def unmap_buffers_def
  stream_iteration_def capture_handler_def capture_session_def capture_cleanup_def
  camera_lock_acquire_def camera_lock_release_def xSemaphoreTake_def xSemaphoreGive_def
  jpeg_encode_frame_def map_buffers.simps

lemma stream_run_disconnected:
  "stream_handler g_ready env_ok [frame_ok, frame_disconnected] =
     (g_ready,
      [XSemaphoreTake 10000 True,
       HttpdRespSetType STREAM_CONTENT_TYPE,
       HttpdRespSetHdr ''Access-Control-Allow-Origin'' ''*'',
       Ioctl 3 VIDIOC_REQBUFS,
       Ioctl 3 VIDIOC_QUERYBUF, Mmap 3 614400 0 1210056704, Ioctl 3 VIDIOC_QBUF,
       Ioctl 3 VIDIOC_QUERYBUF, Mmap 3 614400 614400 1210671104, Ioctl 3 VIDIOC_QBUF,
       Ioctl 3 VIDIOC_QUERYBUF, Mmap 3 614400 1228800 1211285504, Ioctl 3 VIDIOC_QBUF,
       Ioctl 3 VIDIOC_STREAMON,
       Ioctl 3 VIDIOC_DQBUF, JpegEncoderProcess, HttpdRespSendChunk STREAM_BOUNDARY,
       HttpdRespSendChunk STREAM_PART, HttpdRespSendChunk JPEG_PAYLOAD, Ioctl 3 VIDIOC_QBUF,
       Ioctl 3 VIDIOC_DQBUF, JpegEncoderProcess, HttpdRespSendChunk STREAM_BOUNDARY,
       Ioctl 3 VIDIOC_QBUF,
       Ioctl 3 VIDIOC_STREAMOFF,
       Munmap 1210056704 614400, Munmap 1210671104 614400, Munmap 1211285504 614400,
       XSemaphoreGive],
      Some ESP_FAIL)"
  by (simp add: handler_defs sample_defs esp_err_defs NULL_def MAP_FAILED_def
        V4L2_BUF_FLAG_DONE_def CAMERA_LOCK_TIMEOUT_MS_def Let_def upt_rec)

lemmas detection_defs =
  detection_task_def detection_session_def detection_teardown_def release_buffers_def
  detection_iteration_def init_v4l2_buffers_def init_v4l2_buffers_loop.simps resize_def
  detect_configure_camera_device_def

lemmas detection_sample_defs =
  ctx_started_def s_ctx_init_def fmt_rgb_already_def det_ok_def det_stop_def
  det_interrupted_def

lemma detection_run_one_frame:
  "detection_task ctx_started fmt_rgb_already env_ok [det_ok, det_stop] =
     (s_ctx_init\<lparr>camera_fd := 3, should_stop := True, ctx_width := 800, ctx_height := 640,
                 ctx_pixformat := V4L2_PIX_FMT_RGB565\<rparr>,
      [Ioctl 3 VIDIOC_G_FMT, Ioctl 3 VIDIOC_REQBUFS,
       Ioctl 3 VIDIOC_QUERYBUF, Mmap 3 614400 0 1210056704, Ioctl 3 VIDIOC_QBUF,
       Ioctl 3 VIDIOC_QUERYBUF, Mmap 3 614400 614400 1210671104, Ioctl 3 VIDIOC_QBUF,
       Ioctl 3 VIDIOC_QUERYBUF, Mmap 3 614400 1228800 1211285504, Ioctl 3 VIDIOC_QBUF,
       Ioctl 3 VIDIOC_STREAMON,
       Ioctl 3 VIDIOC_DQBUF, DetectorRun, Ioctl 3 VIDIOC_QBUF,
       Ioctl 3 VIDIOC_STREAMOFF,
       Munmap 1210056704 614400, Munmap 1210671104 614400, Munmap 1211285504 614400,
       DeleteHumanFaceDetect 1073750016, VTaskDelete],
      Finished)"
  by (simp add: detection_defs detection_sample_defs sample_defs esp_err_defs NULL_def
        MAP_FAILED_def pix_fmt_values Let_def numeral_3_eq_3)

lemma capture_run_ok:
  "capture_handler g_ready env_ok frame_ok =
     (g_ready,
      [XSemaphoreTake 10000 True, Ioctl 3 VIDIOC_REQBUFS, Ioctl 3 VIDIOC_QUERYBUF,
       Mmap 3 614400 0 1210056704, Ioctl 3 VIDIOC_QBUF, Ioctl 3 VIDIOC_STREAMON,
       Ioctl 3 VIDIOC_DQBUF, JpegEncoderProcess, HttpdRespSetType ''image/jpeg'',
       HttpdRespSetHdr ''Content-Disposition'' ''inline; filename=capture.jpg'',
       HttpdRespSend, Ioctl 3 VIDIOC_STREAMOFF, Munmap 1210056704 614400, XSemaphoreGive],
      ESP_OK)"
  by (simp add: handler_defs sample_defs esp_err_defs NULL_def MAP_FAILED_def
        V4L2_BUF_FLAG_DONE_def CAMERA_LOCK_TIMEOUT_MS_def Let_def)

section \<open>The lock around a session\<close>

text \<open>
  Claim C1. In every run of the stream handler or of the capture handler in which
  \<^verbatim>\<open>camera_lock_acquire\<close> grants the lock, once the handler returns
  \<^verbatim>\<open>xSemaphoreGive\<close> has been called exactly once, it is the last call of the
  handler, and the mutex is free. This holds on every path to the return, since nothing
  is assumed about the answers of the device, of the encoder or of the HTTP server. The
  capture handler always returns; the stream handler returns when an iteration of its
  loop leaves the loop (\<open>None\<close> stands for a handler that is still streaming).
\<close>

theorem lock_released_exactly_once:
  assumes "fst (camera_lock_acquire g (lock_given_back env))"
  shows
    "(snd (snd (stream_handler g env frames)) \<noteq> None \<longrightarrow>
        gives (fst (snd (stream_handler g env frames))) = 1 \<and>
        last (fst (snd (stream_handler g env frames))) = XSemaphoreGive \<and>
        lock (s_stream_state (fst (stream_handler g env frames))) = Some Free) \<and>
     gives (fst (snd (capture_handler g env f))) = 1 \<and>
     last (fst (snd (capture_handler g env f))) = XSemaphoreGive \<and>
     lock (s_stream_state (fst (capture_handler g env f))) = Some Free"
proof -
  let ?g1 = "g\<lparr>s_stream_state := (s_stream_state g)\<lparr>lock := Some Held\<rparr>\<rparr>"
  obtain tr1 res where s: "stream_session ?g1 env frames = (tr1, res)"
    by (cases "stream_session ?g1 env frames") auto
  obtain tr2 ret buffer started where c: "capture_session ?g1 env f = (tr2, ret, buffer, started)"
    by (metis prod_cases4)
  note qs = stream_session_quiet [OF s] and qc = capture_session_quiet [OF c]
  have stream: "snd (snd (stream_handler g env frames)) \<noteq> None \<longrightarrow>
        gives (fst (snd (stream_handler g env frames))) = 1 \<and>
        last (fst (snd (stream_handler g env frames))) = XSemaphoreGive \<and>
        lock (s_stream_state (fst (stream_handler g env frames))) = Some Free"
    using s qs stream_cleanup_quiet
    by (auto simp: stream_handler_granted [OF assms] trace_append split: option.splits)
  have capture: "gives (fst (snd (capture_handler g env f))) = 1 \<and>
     last (fst (snd (capture_handler g env f))) = XSemaphoreGive \<and>
     lock (s_stream_state (fst (capture_handler g env f))) = Some Free"
    using c qc capture_cleanup_quiet
    by (simp add: capture_handler_granted [OF assms] trace_append)
  show ?thesis using stream capture by simp
qed

theorem lock_released_exactly_once_witness:
  "fst (camera_lock_acquire g_ready (lock_given_back env_ok)) \<and>
   snd (snd (stream_handler g_ready env_ok [frame_ok, frame_disconnected])) = Some ESP_FAIL \<and>
   gives (fst (snd (stream_handler g_ready env_ok [frame_ok, frame_disconnected]))) = 1 \<and>
   last (fst (snd (stream_handler g_ready env_ok [frame_ok, frame_disconnected]))) =
     XSemaphoreGive \<and>
   lock (s_stream_state (fst (stream_handler g_ready env_ok [frame_ok, frame_disconnected]))) =
     Some Free \<and>
   snd (snd (capture_handler g_ready env_ok frame_ok)) = ESP_OK \<and>
   gives (fst (snd (capture_handler g_ready env_ok frame_ok))) = 1 \<and>
   last (fst (snd (capture_handler g_ready env_ok frame_ok))) = XSemaphoreGive \<and>
   lock (s_stream_state (fst (capture_handler g_ready env_ok frame_ok))) = Some Free"
proof -
  have h: "fst (camera_lock_acquire g_ready (lock_given_back env_ok))"
    by (simp add: camera_lock_acquire_def xSemaphoreTake_def g_ready_def env_ok_def)
  have r: "snd (snd (stream_handler g_ready env_ok [frame_ok, frame_disconnected])) \<noteq> None"
    by (simp add: stream_run_disconnected)
  have s: "snd (snd (stream_handler g_ready env_ok [frame_ok, frame_disconnected])) =
             Some ESP_FAIL"
    "snd (snd (capture_handler g_ready env_ok frame_ok)) = ESP_OK"
    by (simp_all add: stream_run_disconnected capture_run_ok)
  show ?thesis
    using h r s lock_released_exactly_once [OF h, of "[frame_ok, frame_disconnected]" frame_ok]
    by simp
qed

text \<open>
  The two HTTP consumer paths that call the capture device, the stream handler and the
  capture handler, take the camera lock first: in every run, also one that is still
  streaming, each \<^verbatim>\<open>ioctl\<close>, \<^verbatim>\<open>mmap\<close> and \<^verbatim>\<open>munmap\<close> of the handler comes
  after a granted \<^verbatim>\<open>xSemaphoreTake\<close> and before the \<^verbatim>\<open>xSemaphoreGive\<close>.
\<close>

lemma handlers_gated:
  "gated False (fst (snd (stream_handler g env frames))) \<and>
   gated False (fst (snd (capture_handler g env f)))"
proof (cases "fst (camera_lock_acquire g (lock_given_back env))")
  case False
  then show ?thesis
    by (simp add: stream_handler_denied capture_handler_denied split: option.splits)
next
  case True
  let ?g1 = "g\<lparr>s_stream_state := (s_stream_state g)\<lparr>lock := Some Held\<rparr>\<rparr>"
  obtain tr1 res where s: "stream_session ?g1 env frames = (tr1, res)"
    by (cases "stream_session ?g1 env frames") auto
  obtain tr2 ret buffer started where c: "capture_session ?g1 env f = (tr2, ret, buffer, started)"
    by (metis prod_cases4)
  note qs = stream_session_quiet [OF s] and qc = capture_session_quiet [OF c]
  have q1: "gated True (tr1 @ rest) = gated True rest" for rest
    using qs by (intro gated_quiet) simp_all
  have q2: "gated True (tr2 @ rest) = gated True rest" for rest
    using qc by (intro gated_quiet) simp_all
  have q3: "gated True (stream_cleanup fd bs n st @ rest) = gated True rest" for fd bs n st rest
    using stream_cleanup_quiet [of fd bs n st] by (intro gated_quiet) simp_all
  have q4: "gated True (capture_cleanup fd b st @ rest) = gated True rest" for fd b st rest
    using capture_cleanup_quiet [of fd b st] by (intro gated_quiet) simp_all
  have "gated True tr1" using q1 [of "[]"] by simp
  then have "gated False (fst (snd (stream_handler g env frames)))"
    using s q1 q3 by (auto simp: stream_handler_granted [OF True] split: option.splits)
  moreover have "gated False (fst (snd (capture_handler g env f)))"
    using c q2 q4 by (simp add: capture_handler_granted [OF True])
  ultimately show ?thesis by simp
qed


section \<open>The session of the detection task\<close>

lemma init_v4l2_buffers_loop_eq:
  "init_v4l2_buffers_loop fd resp i count bufs = map_buffers fd resp i count bufs"
proof (induction fd resp i count bufs rule: map_buffers.induct)
  case (1 fd resp i count bufs)
  show ?case
    apply (subst map_buffers.simps)
    apply (subst init_v4l2_buffers_loop.simps)
    using 1 apply (simp add: Let_def)
    done
qed











subsection \<open>The detection task and the lock\<close>

lemma release_no_lock:
  "takes (concat (map (\<lambda>b. if buf_addr b \<noteq> NULL \<and> buf_addr b \<noteq> MAP_FAILED
                             then [Munmap (buf_addr b) (buf_length b)] else []) xs)) = 0"
  by (induction xs) simp_all

lemma detection_loop_no_lock: "takes (fst (snd (detection_loop ctx fs))) = 0"
proof (induction fs arbitrary: ctx)
  case Nil
  then show ?case by simp
next
  case (Cons f fs)
  obtain c1 tr1 x1 where it: "detection_iteration ctx f = (c1, tr1, x1)"
    by (metis prod_cases3)
  have "takes tr1 = 0"
    using it by (auto simp: detection_iteration_def Let_def split: if_splits)
  then show ?case
    using it Cons.IH [of c1] by (cases x1) (simp_all add: case_prod_beta trace_append)
qed

text \<open>
  On every run the detection task takes no lock, and as soon as it has a detector its
  first call is an \<^verbatim>\<open>ioctl\<close> on the capture device.
\<close>

lemma detection_task_no_lock:
  "takes (fst (snd (detection_task ctx fenv env frames))) = 0"
proof -
  obtain e1 c1 t1 where cf: "detect_configure_camera_device ctx fenv = (e1, c1, t1)"
    by (metis prod_cases3)
  obtain e2 c2 t2 where ib: "init_v4l2_buffers c1 env = (e2, c2, t2)"
    by (metis prod_cases3)
  obtain ok bufs tr where m:
    "map_buffers (camera_fd c1) (buf_resps env) 0 (reqbufs_count env)
       (resize (reqbufs_count env) (buffers c1)) = (ok, bufs, tr)"
    by (metis prod_cases3)
  have k1: "takes t1 = 0"
    using cf by (auto simp: detect_configure_camera_device_def Let_def split: if_splits prod.splits)
  have k2: "takes t2 = 0"
    using ib m map_buffers_quiet [OF m]
    by (auto simp: init_v4l2_buffers_def Let_def init_v4l2_buffers_loop_eq split: if_splits)
  have k3: "takes (snd (detection_teardown c)) = 0" for c
    by (simp add: detection_teardown_def release_buffers_def Let_def trace_append
          release_no_lock)
  obtain c3 t3 out where s: "detection_session ctx fenv env frames = (c3, t3, out)"
    by (metis prod_cases3)
  have k4: "takes t3 = 0"
    using s cf ib k1 k2 detection_loop_no_lock [of "c2\<lparr>stream_started := True\<rparr>" frames]
    by (auto simp: detection_session_def Let_def trace_append case_prod_beta split: if_splits)
  show ?thesis
    using s k3 [of c3] k4
    by (cases out) (simp_all add: detection_task_def case_prod_beta trace_append)
qed

lemma detection_task_first_call:
  assumes "detector ctx \<noteq> NULL"
  shows "\<not> gated False (fst (snd (detection_task ctx fenv env frames)))"
proof -
  obtain e1 c1 t1 where cf: "detect_configure_camera_device ctx fenv = (e1, c1, t1)"
    by (metis prod_cases3)
  have "\<exists>rest. t1 = Ioctl (camera_fd ctx) VIDIOC_G_FMT # rest"
    using cf by (auto simp: detect_configure_camera_device_def Let_def split: if_splits prod.splits)
  then obtain rest where t1: "t1 = Ioctl (camera_fd ctx) VIDIOC_G_FMT # rest" by blast
  obtain c3 t3 out where s: "detection_session ctx fenv env frames = (c3, t3, out)"
    by (metis prod_cases3)
  have "\<exists>more. t3 = Ioctl (camera_fd ctx) VIDIOC_G_FMT # more"
    using s assms cf t1
    by (auto simp: detection_session_def Let_def case_prod_beta split: if_splits)
  then obtain more where t3: "t3 = Ioctl (camera_fd ctx) VIDIOC_G_FMT # more" by blast
  show ?thesis
    using s t3 by (cases out) (simp_all add: detection_task_def case_prod_beta)
qed

text \<open>
  Claim C2 holds for the stream handler and the capture handler (\<open>handlers_gated\<close>)
  and not for the face-detection task: \<^verbatim>\<open>detection_task\<close> never takes the camera
  lock, which its two sibling consumer paths take before their first device call, and it
  calls the capture device all the same (\<open>detection_task_no_lock\<close>,
  \<open>detection_task_first_call\<close>). Here the task, started on descriptor 3 while
  the server is ready, runs one frame and is then told to stop: its trace holds no
  \<^verbatim>\<open>xSemaphoreTake\<close>, and its device calls are made without the lock.
\<close>

theorem detection_task_not_gated:
  "\<not> gated False (fst (snd (detection_task ctx_started fmt_rgb_already env_ok [det_ok, det_stop]))) \<and>
   takes (fst (snd (detection_task ctx_started fmt_rgb_already env_ok [det_ok, det_stop]))) = 0 \<and>
   ioctls VIDIOC_DQBUF
     (fst (snd (detection_task ctx_started fmt_rgb_already env_ok [det_ok, det_stop]))) = 1 \<and>
   snd (snd (detection_task ctx_started fmt_rgb_already env_ok [det_ok, det_stop])) = Finished"
  by (simp add: detection_run_one_frame)

section \<open>Mapping and unmapping\<close>

text \<open>
  The buffer vector of the detection task is empty when the task starts:
  \<^verbatim>\<open>s_ctx\<close> starts with an empty vector, \<^verbatim>\<open>face_detect_start\<close> does not touch
  it, and a task that reaches its end leaves it empty.
\<close>

lemma detection_task_leaves_empty:
  "snd (snd (detection_task ctx fenv env frames)) = Finished \<Longrightarrow>
   buffers (fst (detection_task ctx fenv env frames)) = []"
proof -
  assume f: "snd (snd (detection_task ctx fenv env frames)) = Finished"
  obtain c1 t1 out where s: "detection_session ctx fenv env frames = (c1, t1, out)"
    by (metis prod_cases3)
  have "buffers (fst (detection_teardown c)) = []" for c
    by (simp add: detection_teardown_def release_buffers_def Let_def case_prod_beta)
  then show ?thesis
    using f s by (cases out) (simp_all add: detection_task_def case_prod_beta)
qed

lemma face_detect_start_buffers:
  "buffers (fst (snd (face_detect_start enabled ctx fd mqtt env))) = buffers ctx"
  by (simp add: face_detect_start_def Let_def)

subsection \<open>Runs that leave regions mapped\<close>








section \<open>Errors inside the streaming loop\<close>

lemma stream_run_encode_fails:
  "stream_handler g_ready env_ok [frame_encode_fails, frame_ok] =
     (g_ready,
      [XSemaphoreTake 10000 True,
       HttpdRespSetType STREAM_CONTENT_TYPE,
       HttpdRespSetHdr ''Access-Control-Allow-Origin'' ''*'',
       Ioctl 3 VIDIOC_REQBUFS,
       Ioctl 3 VIDIOC_QUERYBUF, Mmap 3 614400 0 1210056704, Ioctl 3 VIDIOC_QBUF,
       Ioctl 3 VIDIOC_QUERYBUF, Mmap 3 614400 614400 1210671104, Ioctl 3 VIDIOC_QBUF,
       Ioctl 3 VIDIOC_QUERYBUF, Mmap 3 614400 1228800 1211285504, Ioctl 3 VIDIOC_QBUF,
       Ioctl 3 VIDIOC_STREAMON,
       Ioctl 3 VIDIOC_DQBUF, JpegEncoderProcess, Ioctl 3 VIDIOC_QBUF,
       Ioctl 3 VIDIOC_STREAMOFF,
       Munmap 1210056704 614400, Munmap 1210671104 614400, Munmap 1211285504 614400,
       XSemaphoreGive],
      Some ESP_FAIL)"
  by (simp add: handler_defs sample_defs esp_err_defs NULL_def MAP_FAILED_def
        V4L2_BUF_FLAG_DONE_def CAMERA_LOCK_TIMEOUT_MS_def Let_def upt_rec)

lemma stream_run_interrupted:
  "stream_handler g_ready env_ok [frame_interrupted, frame_ok] =
     (g_ready,
      [XSemaphoreTake 10000 True,
       HttpdRespSetType STREAM_CONTENT_TYPE,
       HttpdRespSetHdr ''Access-Control-Allow-Origin'' ''*'',
       Ioctl 3 VIDIOC_REQBUFS,
       Ioctl 3 VIDIOC_QUERYBUF, Mmap 3 614400 0 1210056704, Ioctl 3 VIDIOC_QBUF,
       Ioctl 3 VIDIOC_QUERYBUF, Mmap 3 614400 614400 1210671104, Ioctl 3 VIDIOC_QBUF,
       Ioctl 3 VIDIOC_QUERYBUF, Mmap 3 614400 1228800 1211285504, Ioctl 3 VIDIOC_QBUF,
       Ioctl 3 VIDIOC_STREAMON,
       Ioctl 3 VIDIOC_DQBUF,
       Ioctl 3 VIDIOC_STREAMOFF,
       Munmap 1210056704 614400, Munmap 1210671104 614400, Munmap 1211285504 614400,
       XSemaphoreGive],
      Some ESP_FAIL)"
  by (simp add: handler_defs sample_defs esp_err_defs NULL_def MAP_FAILED_def EINTR_def
        V4L2_BUF_FLAG_DONE_def CAMERA_LOCK_TIMEOUT_MS_def Let_def upt_rec)

lemma encode_error_iteration:
  assumes "0 \<le> dqbuf_ret f" and "dqbuf_flags f AND V4L2_BUF_FLAG_DONE \<noteq> 0"
    and "fst (jpeg_encode_frame g (encode_err f) (encode_size f)) \<noteq> ESP_OK"
  shows "stream_iteration g f =
           (Ioctl (s_camera_fd g) VIDIOC_DQBUF #
              (if initialized (s_jpeg_state g) then [JpegEncoderProcess] else []) @
              [Ioctl (s_camera_fd g) VIDIOC_QBUF],
            Some ESP_FAIL)"
  using assms
  by (auto simp: stream_iteration_def jpeg_encode_frame_def Let_def split: if_splits)

lemma stream_cleanup_no_dqbuf: "ioctls VIDIOC_DQBUF (stream_cleanup fd bs n st) = 0"
  using unmap_buffers_quiet [of n _ VIDIOC_DQBUF]
  by (auto simp: stream_cleanup_def trace_append split: option.splits)

lemma jpeg_encoder_init_ok:
  "jpeg_encoder_init g env = (ESP_OK, g', tr) \<Longrightarrow> initialized (s_jpeg_state g')"
  by (auto simp: jpeg_encoder_init_def Let_def esp_err_defs
        split: option.splits if_splits prod.splits)

lemma camera_server_start_ok:
  "fst (camera_server_start dw dh g fd senv) = ESP_OK \<Longrightarrow>
   initialized (s_jpeg_state (fst (snd (camera_server_start dw dh g fd senv))))"
  by (auto simp: camera_server_start_def Let_def esp_err_defs
        split: if_splits prod.splits dest: jpeg_encoder_init_ok [unfolded ESP_OK_def])

text \<open>
  Claim C4, as stated, fails: an encoder error on a frame ends the stream. Here the
  encoder fails on the first frame; the handler re-queues the buffer, tears the session
  down and returns \<^verbatim>\<open>ESP_FAIL\<close>, and the second frame, which the encoder would have
  accepted, is never dequeued.
\<close>

theorem encoder_error_counterexample:
  "encode_err frame_encode_fails \<noteq> ESP_OK \<and> encode_err frame_ok = ESP_OK \<and>
   snd (snd (stream_handler g_ready env_ok [frame_encode_fails, frame_ok])) = Some ESP_FAIL \<and>
   ioctls VIDIOC_DQBUF (fst (snd (stream_handler g_ready env_ok [frame_encode_fails, frame_ok]))) = 1 \<and>
   ioctls VIDIOC_STREAMOFF
     (fst (snd (stream_handler g_ready env_ok [frame_encode_fails, frame_ok]))) = 1"
proof -
  have "encode_err frame_encode_fails \<noteq> ESP_OK" "encode_err frame_ok = ESP_OK"
    by (simp_all add: frame_encode_fails_def frame_ok_def esp_err_defs)
  then show ?thesis by (simp add: stream_run_encode_fails)
qed

lemma stream_iteration_cong:
  "s_camera_fd g' = s_camera_fd g \<Longrightarrow> s_jpeg_state g' = s_jpeg_state g \<Longrightarrow>
   stream_iteration g' f = stream_iteration g f"
proof -
  assume fd: "s_camera_fd g' = s_camera_fd g" and js: "s_jpeg_state g' = s_jpeg_state g"
  have enc: "jpeg_encode_frame g' e n = jpeg_encode_frame g e n" for e n
    by (simp add: jpeg_encode_frame_def js)
  show ?thesis unfolding stream_iteration_def enc fd by (rule refl)
qed

lemma stream_loop_cong:
  "s_camera_fd g' = s_camera_fd g \<Longrightarrow> s_jpeg_state g' = s_jpeg_state g \<Longrightarrow>
   stream_loop g' fs = stream_loop g fs"
  by (induction fs) (simp_all add: stream_iteration_cong [of g' g])

lemma stream_loop_append:
  "snd (stream_loop g pre) = None \<Longrightarrow>
   stream_loop g (pre @ rest) =
     (fst (stream_loop g pre) @ fst (stream_loop g rest), snd (stream_loop g rest))"
proof (induction pre)
  case Nil
  then show ?case by simp
next
  case (Cons a pre)
  obtain t r where it: "stream_iteration g a = (t, r)" by (cases "stream_iteration g a") auto
  show ?case
  proof (cases r)
    case (Some x)
    then show ?thesis using Cons.prems it by simp
  next
    case None
    then have "snd (stream_loop g pre) = None"
      using Cons.prems it by (simp add: case_prod_beta)
    from Cons.IH [OF this] show ?thesis using it None by (simp add: case_prod_beta)
  qed
qed

lemma stream_iteration_ioctls:
  "req \<noteq> VIDIOC_DQBUF \<Longrightarrow> req \<noteq> VIDIOC_QBUF \<Longrightarrow>
   ioctls req (fst (stream_iteration g f)) = 0"
  by (simp add: stream_iteration_def jpeg_encode_frame_def Let_def trace_append)

lemma stream_loop_ioctls:
  "req \<noteq> VIDIOC_DQBUF \<Longrightarrow> req \<noteq> VIDIOC_QBUF \<Longrightarrow>
   ioctls req (fst (stream_loop g fs)) = 0"
proof (induction fs)
  case Nil
  then show ?case by simp
next
  case (Cons f fs)
  obtain t r where it: "stream_iteration g f = (t, r)" by (cases "stream_iteration g f") auto
  have "ioctls req t = 0" using stream_iteration_ioctls [OF Cons.prems, of g f] it by simp
  then show ?case
    using it Cons.IH [OF Cons.prems] by (cases r) (simp_all add: case_prod_beta trace_append)
qed

lemma map_buffers_ioctls:
  "map_buffers fd resp i count bufs = (ok, bufs', tr) \<Longrightarrow>
   req \<noteq> VIDIOC_QUERYBUF \<Longrightarrow> req \<noteq> VIDIOC_QBUF \<Longrightarrow> ioctls req tr = 0"
proof (induction fd resp i count bufs arbitrary: ok bufs' tr rule: map_buffers.induct)
  case (1 fd resp i count bufs)
  from "1.prems" show ?case
    apply (subst (asm) map_buffers.simps)
    apply (auto simp: Let_def trace_append split: if_splits prod.splits
             dest!: "1.IH" [OF _ refl _ refl refl])
    done
qed

lemma stream_cleanup_streamoff:
  "ioctls VIDIOC_STREAMOFF (stream_cleanup fd bs n st) = (if st then 1 else 0)"
  using unmap_buffers_quiet [of n _ VIDIOC_STREAMOFF]
  by (auto simp: stream_cleanup_def trace_append split: option.splits)

lemma stream_session_after_break:
  assumes l: "stream_loop g frames = (t, Some ESP_FAIL)"
    and s: "stream_session g env frames = (tr, res)"
  shows "(case res of None \<Rightarrow> False
          | Some (ret, bs, n, st) \<Rightarrow> ret \<noteq> ESP_OK \<and> (0 < ioctls VIDIOC_DQBUF tr \<longrightarrow> st)) \<and>
         ioctls VIDIOC_DQBUF tr \<le> ioctls VIDIOC_DQBUF t \<and>
         ioctls VIDIOC_STREAMOFF tr = 0"
proof -
  obtain ok bufs tr1 where m:
    "map_buffers (s_camera_fd g) (buf_resps env) 0 (reqbufs_count env)
       (replicate (reqbufs_count env) \<lparr>buf_addr = NULL, buf_length = 0\<rparr>) = (ok, bufs, tr1)"
    by (metis prod_cases3)
  have q: "ioctls VIDIOC_DQBUF tr1 = 0" "ioctls VIDIOC_STREAMOFF tr1 = 0"
    using map_buffers_ioctls [OF m] by simp_all
  have q2: "ioctls VIDIOC_STREAMOFF t = 0"
    using stream_loop_ioctls [of VIDIOC_STREAMOFF g frames] l by simp
  show ?thesis
    using s l m q q2
    by (auto simp: stream_session_def Let_def trace_append esp_err_defs split: if_splits)
qed

lemma stream_handler_loop_cong:
  assumes "\<And>g'. s_camera_fd g' = s_camera_fd g \<Longrightarrow> s_jpeg_state g' = s_jpeg_state g \<Longrightarrow>
             stream_loop g' a = stream_loop g' b"
  shows "stream_handler g env a = stream_handler g env b"
proof (cases "fst (camera_lock_acquire g (lock_given_back env))")
  case False
  then show ?thesis by (simp add: stream_handler_denied)
next
  case True
  let ?g1 = "g\<lparr>s_stream_state := (s_stream_state g)\<lparr>lock := Some Held\<rparr>\<rparr>"
  have eq: "stream_loop ?g1 a = stream_loop ?g1 b" by (rule assms) simp_all
  have "stream_session ?g1 env a = stream_session ?g1 env b"
    unfolding stream_session_def eq by (rule refl)
  then show ?thesis by (simp add: stream_handler_granted [OF True])
qed

text \<open>
  Claim C4, amended. During continuous streaming, when the encoder reports an error on a
  complete frame (the encoder not being initialised is one such error), at whatever
  iteration of the loop, that iteration re-queues the buffer of the frame and leaves the
  loop with \<^verbatim>\<open>ESP_FAIL\<close>. The handler then returns, with a result other than
  \<^verbatim>\<open>ESP_OK\<close>; what it does is the same whatever frames would have followed, and it
  has made no dequeue beyond that of the failing frame; and it has gone through the
  teardown: once a frame has been dequeued, the stream is switched off once and the lock
  is given back, once, as the last call. An encoder that cannot be configured is fatal at
  the start of the server: \<^verbatim>\<open>camera_server_start\<close> returns \<^verbatim>\<open>ESP_OK\<close> only with
  the encoder initialised.
\<close>

theorem encoder_error_ends_stream:
  assumes "snd (stream_loop g pre) = None"
    and "0 \<le> dqbuf_ret f" and "dqbuf_flags f AND V4L2_BUF_FLAG_DONE \<noteq> 0"
    and "fst (jpeg_encode_frame g (encode_err f) (encode_size f)) \<noteq> ESP_OK"
  shows
    "stream_loop g (pre @ f # fs) =
       (fst (stream_loop g pre) @
          Ioctl (s_camera_fd g) VIDIOC_DQBUF #
          (if initialized (s_jpeg_state g) then [JpegEncoderProcess] else []) @
          [Ioctl (s_camera_fd g) VIDIOC_QBUF],
        Some ESP_FAIL) \<and>
     stream_handler g env (pre @ f # fs) = stream_handler g env (pre @ [f]) \<and>
     snd (snd (stream_handler g env (pre @ f # fs))) \<noteq> None \<and>
     snd (snd (stream_handler g env (pre @ f # fs))) \<noteq> Some ESP_OK \<and>
     ioctls VIDIOC_DQBUF (fst (snd (stream_handler g env (pre @ f # fs)))) \<le>
       ioctls VIDIOC_DQBUF (fst (stream_loop g pre)) + 1 \<and>
     (0 < ioctls VIDIOC_DQBUF (fst (snd (stream_handler g env (pre @ f # fs)))) \<longrightarrow>
        ioctls VIDIOC_STREAMOFF (fst (snd (stream_handler g env (pre @ f # fs)))) = 1 \<and>
        gives (fst (snd (stream_handler g env (pre @ f # fs)))) = 1 \<and>
        last (fst (snd (stream_handler g env (pre @ f # fs)))) = XSemaphoreGive) \<and>
     (fst (camera_server_start dw dh g0 fd senv) = ESP_OK \<longrightarrow>
        initialized (s_jpeg_state (fst (snd (camera_server_start dw dh g0 fd senv)))))"
proof -
  let ?g1 = "g\<lparr>s_stream_state := (s_stream_state g)\<lparr>lock := Some Held\<rparr>\<rparr>"
  let ?it = "Ioctl (s_camera_fd g) VIDIOC_DQBUF #
          (if initialized (s_jpeg_state g) then [JpegEncoderProcess] else []) @
          [Ioctl (s_camera_fd g) VIDIOC_QBUF]"
  let ?t = "fst (stream_loop g pre)"
  have brk: "stream_loop g (f # rest) = (?it, Some ESP_FAIL)" for rest
    using encode_error_iteration [OF assms(2,3,4)] by simp
  have loop: "stream_loop g (pre @ f # rest) = (?t @ ?it, Some ESP_FAIL)" for rest
    using stream_loop_append [OF assms(1), of "f # rest"] brk [of rest] by simp
  have loop': "stream_loop g' (pre @ f # rest) = (?t @ ?it, Some ESP_FAIL)"
    if "s_camera_fd g' = s_camera_fd g" "s_jpeg_state g' = s_jpeg_state g" for g' rest
    using loop [of rest] stream_loop_cong [OF that] by simp
  have indep: "stream_handler g env (pre @ f # fs) = stream_handler g env (pre @ [f])"
    by (rule stream_handler_loop_cong) (simp add: loop')
  have it_count: "ioctls VIDIOC_DQBUF (?t @ ?it) = ioctls VIDIOC_DQBUF ?t + 1"
    by (simp add: trace_append)
  have handler:
    "snd (snd (stream_handler g env (pre @ f # fs))) \<noteq> None \<and>
     snd (snd (stream_handler g env (pre @ f # fs))) \<noteq> Some ESP_OK \<and>
     ioctls VIDIOC_DQBUF (fst (snd (stream_handler g env (pre @ f # fs)))) \<le>
       ioctls VIDIOC_DQBUF ?t + 1 \<and>
     (0 < ioctls VIDIOC_DQBUF (fst (snd (stream_handler g env (pre @ f # fs)))) \<longrightarrow>
        ioctls VIDIOC_STREAMOFF (fst (snd (stream_handler g env (pre @ f # fs)))) = 1 \<and>
        gives (fst (snd (stream_handler g env (pre @ f # fs)))) = 1 \<and>
        last (fst (snd (stream_handler g env (pre @ f # fs)))) = XSemaphoreGive)"
  proof (cases "fst (camera_lock_acquire g (lock_given_back env))")
    case False
    then show ?thesis
      by (simp add: stream_handler_denied esp_err_defs trace_append split: option.splits)
  next
    case True
    obtain tr res where s: "stream_session ?g1 env (pre @ f # fs) = (tr, res)"
      by (cases "stream_session ?g1 env (pre @ f # fs)") auto
    have l: "stream_loop ?g1 (pre @ f # fs) = (?t @ ?it, Some ESP_FAIL)"
      by (rule loop') simp_all
    note ab = stream_session_after_break [OF l s]
    note qs = stream_session_quiet [OF s]
    show ?thesis
      using s ab qs it_count stream_cleanup_no_dqbuf stream_cleanup_streamoff
        stream_cleanup_quiet
      by (auto simp: stream_handler_granted [OF True] trace_append split: option.splits)
  qed
  show ?thesis
    using loop [of fs] indep handler camera_server_start_ok [of dw dh g0 fd senv] by simp
qed

lemma stream_run_second_frame_fails:
  "stream_handler g_ready env_ok [frame_ok, frame_encode_fails, frame_ok] =
     (g_ready,
      [XSemaphoreTake 10000 True,
       HttpdRespSetType STREAM_CONTENT_TYPE,
       HttpdRespSetHdr ''Access-Control-Allow-Origin'' ''*'',
       Ioctl 3 VIDIOC_REQBUFS,
       Ioctl 3 VIDIOC_QUERYBUF, Mmap 3 614400 0 1210056704, Ioctl 3 VIDIOC_QBUF,
       Ioctl 3 VIDIOC_QUERYBUF, Mmap 3 614400 614400 1210671104, Ioctl 3 VIDIOC_QBUF,
       Ioctl 3 VIDIOC_QUERYBUF, Mmap 3 614400 1228800 1211285504, Ioctl 3 VIDIOC_QBUF,
       Ioctl 3 VIDIOC_STREAMON,
       Ioctl 3 VIDIOC_DQBUF, JpegEncoderProcess, HttpdRespSendChunk STREAM_BOUNDARY,
       HttpdRespSendChunk STREAM_PART, HttpdRespSendChunk JPEG_PAYLOAD, Ioctl 3 VIDIOC_QBUF,
       Ioctl 3 VIDIOC_DQBUF, JpegEncoderProcess, Ioctl 3 VIDIOC_QBUF,
       Ioctl 3 VIDIOC_STREAMOFF,
       Munmap 1210056704 614400, Munmap 1210671104 614400, Munmap 1211285504 614400,
       XSemaphoreGive],
      Some ESP_FAIL)"
  by (simp add: handler_defs sample_defs esp_err_defs NULL_def MAP_FAILED_def
        V4L2_BUF_FLAG_DONE_def CAMERA_LOCK_TIMEOUT_MS_def Let_def upt_rec)

lemma stream_loop_one_good_frame:
  "stream_loop g_ready [frame_ok] =
     ([Ioctl 3 VIDIOC_DQBUF, JpegEncoderProcess, HttpdRespSendChunk STREAM_BOUNDARY,
       HttpdRespSendChunk STREAM_PART, HttpdRespSendChunk JPEG_PAYLOAD, Ioctl 3 VIDIOC_QBUF],
      None)"
  by (simp add: stream_iteration_def jpeg_encode_frame_def sample_defs esp_err_defs
        V4L2_BUF_FLAG_DONE_def Let_def)

theorem encoder_error_ends_stream_witness:
  "snd (stream_loop g_ready [frame_ok]) = None \<and>
   0 \<le> dqbuf_ret frame_encode_fails \<and>
   dqbuf_flags frame_encode_fails AND V4L2_BUF_FLAG_DONE \<noteq> 0 \<and>
   fst (jpeg_encode_frame g_ready (encode_err frame_encode_fails)
          (encode_size frame_encode_fails)) \<noteq> ESP_OK \<and>
   stream_loop g_ready [frame_ok, frame_encode_fails, frame_ok] =
     ([Ioctl 3 VIDIOC_DQBUF, JpegEncoderProcess, HttpdRespSendChunk STREAM_BOUNDARY,
       HttpdRespSendChunk STREAM_PART, HttpdRespSendChunk JPEG_PAYLOAD, Ioctl 3 VIDIOC_QBUF,
       Ioctl 3 VIDIOC_DQBUF, JpegEncoderProcess, Ioctl 3 VIDIOC_QBUF],
      Some ESP_FAIL) \<and>
   stream_handler g_ready env_ok [frame_ok, frame_encode_fails, frame_ok] =
     stream_handler g_ready env_ok [frame_ok, frame_encode_fails] \<and>
   snd (snd (stream_handler g_ready env_ok [frame_ok, frame_encode_fails, frame_ok])) =
     Some ESP_FAIL \<and>
   ioctls VIDIOC_DQBUF
     (fst (snd (stream_handler g_ready env_ok [frame_ok, frame_encode_fails, frame_ok]))) = 2 \<and>
   ioctls VIDIOC_STREAMOFF
     (fst (snd (stream_handler g_ready env_ok [frame_ok, frame_encode_fails, frame_ok]))) = 1 \<and>
   gives (fst (snd (stream_handler g_ready env_ok [frame_ok, frame_encode_fails, frame_ok]))) = 1 \<and>
   last (fst (snd (stream_handler g_ready env_ok [frame_ok, frame_encode_fails, frame_ok]))) =
     XSemaphoreGive \<and>
   fst (camera_server_start 640 480 s_globals_init 3 srv_env) = ESP_OK \<and>
   initialized (s_jpeg_state (fst (snd (camera_server_start 640 480 s_globals_init 3 srv_env))))"
proof -
  have p: "snd (stream_loop g_ready [frame_ok]) = None"
    by (subst stream_loop_one_good_frame) simp
  have a: "0 \<le> dqbuf_ret frame_encode_fails"
    and b: "dqbuf_flags frame_encode_fails AND V4L2_BUF_FLAG_DONE \<noteq> 0"
    and c: "fst (jpeg_encode_frame g_ready (encode_err frame_encode_fails)
              (encode_size frame_encode_fails)) \<noteq> ESP_OK"
    by (simp_all add: frame_encode_fails_def frame_ok_def V4L2_BUF_FLAG_DONE_def
          jpeg_encode_frame_def g_ready_def esp_err_defs)
  have d: "initialized (s_jpeg_state g_ready)" "s_camera_fd g_ready = 3"
    by (simp_all add: g_ready_def)
  have e: "fst (camera_server_start 640 480 s_globals_init 3 srv_env) = ESP_OK"
    by (simp add: camera_server_start_def camera_state_init_def configure_camera_device_def
          jpeg_encoder_init_def encoder_params_def srv_env_def fmt_accepting_def enc_ok_def
          s_globals_init_def pix_fmt_values esp_err_defs NULL_def Let_def)
  have t: "fst (stream_loop g_ready [frame_ok]) =
     [Ioctl 3 VIDIOC_DQBUF, JpegEncoderProcess, HttpdRespSendChunk STREAM_BOUNDARY,
       HttpdRespSendChunk STREAM_PART, HttpdRespSendChunk JPEG_PAYLOAD, Ioctl 3 VIDIOC_QBUF]"
    by (subst stream_loop_one_good_frame) simp
  note th = encoder_error_ends_stream [OF p a b c, of "[frame_ok]" env_ok 640 480
      s_globals_init 3 srv_env]
  have l: "stream_loop g_ready [frame_ok, frame_encode_fails, frame_ok] =
     ([Ioctl 3 VIDIOC_DQBUF, JpegEncoderProcess, HttpdRespSendChunk STREAM_BOUNDARY,
       HttpdRespSendChunk STREAM_PART, HttpdRespSendChunk JPEG_PAYLOAD, Ioctl 3 VIDIOC_QBUF,
       Ioctl 3 VIDIOC_DQBUF, JpegEncoderProcess, Ioctl 3 VIDIOC_QBUF],
      Some ESP_FAIL)"
    using th [THEN conjunct1] d t by (simp del: stream_loop.simps)
  have i: "stream_handler g_ready env_ok [frame_ok, frame_encode_fails, frame_ok] =
     stream_handler g_ready env_ok [frame_ok, frame_encode_fails]"
    using th [THEN conjunct2, THEN conjunct1] by (simp del: stream_loop.simps)
  have r: "snd (snd (stream_handler g_ready env_ok [frame_ok, frame_encode_fails, frame_ok])) =
     Some ESP_FAIL"
    "ioctls VIDIOC_DQBUF
     (fst (snd (stream_handler g_ready env_ok [frame_ok, frame_encode_fails, frame_ok]))) = 2"
    "ioctls VIDIOC_STREAMOFF
     (fst (snd (stream_handler g_ready env_ok [frame_ok, frame_encode_fails, frame_ok]))) = 1"
    "gives (fst (snd (stream_handler g_ready env_ok [frame_ok, frame_encode_fails, frame_ok]))) = 1"
    "last (fst (snd (stream_handler g_ready env_ok [frame_ok, frame_encode_fails, frame_ok]))) =
     XSemaphoreGive"
    by (simp_all add: stream_run_second_frame_fails)
  have cs: "initialized (s_jpeg_state (fst (snd (camera_server_start 640 480 s_globals_init 3
              srv_env))))"
    using th e by (simp del: stream_loop.simps)
  show ?thesis
    apply (intro conjI)
    apply (rule p a b c l i r e cs)+
    done
qed

section \<open>An interrupted dequeue\<close>

lemma detection_dequeue_failure:
  assumes "\<not> stop_at_head d" and "det_dqbuf_ret d < 0"
  shows "detection_loop ctx (d # ds) =
           (if det_errno d = EINTR
            then (fst (detection_loop (ctx\<lparr>should_stop := False\<rparr>) ds),
                  Ioctl (camera_fd ctx) VIDIOC_DQBUF #
                    fst (snd (detection_loop (ctx\<lparr>should_stop := False\<rparr>) ds)),
                  snd (snd (detection_loop (ctx\<lparr>should_stop := False\<rparr>) ds)))
            else (ctx\<lparr>should_stop := stop_after_fail d\<rparr>,
                  [Ioctl (camera_fd ctx) VIDIOC_DQBUF], Some LoopBreak))"
  using assms by (simp add: detection_iteration_def Let_def case_prod_beta)

lemma stream_dequeue_failure:
  assumes "dqbuf_ret f < 0"
  shows "stream_loop g (f # fs) = ([Ioctl (s_camera_fd g) VIDIOC_DQBUF], Some ESP_FAIL)"
  using assms by (simp add: stream_iteration_def)

text \<open>
  Claim C7 holds for the loop of the detection task and not for the loop of the stream
  handler, which does not look at \<^verbatim>\<open>errno\<close>: a dequeue that fails with
  \<^verbatim>\<open>EINTR\<close> ends the stream like any other failure. Here the first dequeue is
  interrupted: the streaming loop leaves with \<^verbatim>\<open>ESP_FAIL\<close> after that one call and the
  handler returns \<^verbatim>\<open>ESP_FAIL\<close>, while an iteration of the detection loop on the same
  answer goes on to the next iteration.
\<close>

theorem stream_loop_ends_on_eintr:
  "dqbuf_ret frame_interrupted < 0 \<and> dqbuf_errno frame_interrupted = EINTR \<and>
   stream_loop g_ready [frame_interrupted, frame_ok] =
     ([Ioctl 3 VIDIOC_DQBUF], Some ESP_FAIL) \<and>
   snd (snd (stream_handler g_ready env_ok [frame_interrupted, frame_ok])) = Some ESP_FAIL \<and>
   ioctls VIDIOC_DQBUF
     (fst (snd (stream_handler g_ready env_ok [frame_interrupted, frame_ok]))) = 1 \<and>
   det_dqbuf_ret det_interrupted < 0 \<and> det_errno det_interrupted = EINTR \<and>
   detection_iteration ctx_started det_interrupted =
     (ctx_started, [Ioctl 3 VIDIOC_DQBUF], None)"
proof -
  have a: "dqbuf_ret frame_interrupted < 0" "dqbuf_errno frame_interrupted = EINTR"
    "det_dqbuf_ret det_interrupted < 0" "det_errno det_interrupted = EINTR"
    by (simp_all add: frame_interrupted_def frame_ok_def det_interrupted_def det_ok_def)
  have b: "stream_loop g_ready [frame_interrupted, frame_ok] =
     ([Ioctl 3 VIDIOC_DQBUF], Some ESP_FAIL)"
    using a by (simp add: stream_iteration_def g_ready_def)
  have c: "detection_iteration ctx_started det_interrupted =
             (ctx_started, [Ioctl 3 VIDIOC_DQBUF], None)"
    using a
    by (simp add: detection_iteration_def det_interrupted_def det_ok_def ctx_started_def
          s_ctx_init_def)
  show ?thesis using a b c by (simp add: stream_run_interrupted)
qed

end
